theory Spec2Isabelle
  imports Complex_Main
begin

section \<open>JavaScript Number values\<close>

text \<open>
  Both Hyperbridge adapters compute with JavaScript Numbers, that is IEEE 754 binary64
  values.  A Number is modelled as a finite rational (always one that binary64 can
  represent, because every arithmetic result goes through \<open>rnd\<close>), one of the two
  infinities, or NaN.  The sign of zero is not modelled: no expression of the adapters
  can observe it (their only division by a variable is guarded by \<open>> 0\<close>, and a zero is
  otherwise only added, multiplied, compared or tested for truthiness).
\<close>

datatype jsnum = Fin rat | PInf | NInf | NaN

text \<open>Number of binary digits of a natural number.\<close>

fun bitlen :: "nat \<Rightarrow> nat" where
  "bitlen n = (if n = 0 then 0 else Suc (bitlen (n div 2)))"

declare bitlen.simps [simp del]

text \<open>\<open>ilog2 x\<close> is the binary exponent of a positive rational: \<open>2^e \<le> x < 2^(e+1)\<close>.\<close>

definition ilog2 :: "rat \<Rightarrow> int" where
  "ilog2 x = (case quotient_of x of (p, q) \<Rightarrow>
     (let k = int (bitlen (nat p)) - int (bitlen (nat q))
      in if 2 powi k \<le> x then k else k - 1))"

definition round_half_even :: "rat \<Rightarrow> int" where
  "round_half_even m = (let f = \<lfloor>m\<rfloor>; r = m - of_int f
     in if r < 1 / 2 then f else if 1 / 2 < r then f + 1 else if even f then f else f + 1)"

text \<open>
  Rounding of an exact result to binary64, round-to-nearest with ties to even: 53
  significant bits, gradual underflow below \<open>2^-1022\<close>, overflow to an infinity from
  \<open>2^1024 - 2^970\<close> on.
\<close>

definition rnd :: "rat \<Rightarrow> jsnum" where
  "rnd x = (if x = 0 then Fin 0 else
     (let a = \<bar>x\<bar>; e = max (ilog2 a) (- 1022); u = 2 powi (e - 52);
          y = of_int (round_half_even (a / u)) * u
      in if 2 powi 1024 \<le> y then (if 0 < x then PInf else NInf)
         else Fin (if 0 < x then y else - y)))"

text \<open>The operators \<open>+\<close>, \<open>*\<close>, \<open>/\<close>, \<open>>\<close>, \<open><=\<close> on Numbers, \<open>Math.floor\<close> and \<open>isNaN\<close>.\<close>

fun jadd :: "jsnum \<Rightarrow> jsnum \<Rightarrow> jsnum" where
  "jadd (Fin a) (Fin b) = rnd (a + b)"
| "jadd NaN _ = NaN"
| "jadd _ NaN = NaN"
| "jadd PInf NInf = NaN"
| "jadd NInf PInf = NaN"
| "jadd PInf _ = PInf"
| "jadd _ PInf = PInf"
| "jadd NInf _ = NInf"
| "jadd _ NInf = NInf"

fun jmul :: "jsnum \<Rightarrow> jsnum \<Rightarrow> jsnum" where
  "jmul (Fin a) (Fin b) = rnd (a * b)"
| "jmul NaN _ = NaN"
| "jmul _ NaN = NaN"
| "jmul PInf (Fin b) = (if b = 0 then NaN else if 0 < b then PInf else NInf)"
| "jmul NInf (Fin b) = (if b = 0 then NaN else if 0 < b then NInf else PInf)"
| "jmul (Fin a) PInf = (if a = 0 then NaN else if 0 < a then PInf else NInf)"
| "jmul (Fin a) NInf = (if a = 0 then NaN else if 0 < a then NInf else PInf)"
| "jmul PInf PInf = PInf"
| "jmul NInf NInf = PInf"
| "jmul PInf NInf = NInf"
| "jmul NInf PInf = NInf"

fun jdiv :: "jsnum \<Rightarrow> jsnum \<Rightarrow> jsnum" where
  "jdiv (Fin a) (Fin b) =
     (if b = 0 then (if a = 0 then NaN else if 0 < a then PInf else NInf) else rnd (a / b))"
| "jdiv NaN _ = NaN"
| "jdiv _ NaN = NaN"
| "jdiv (Fin a) PInf = Fin 0"
| "jdiv (Fin a) NInf = Fin 0"
| "jdiv PInf (Fin b) = (if b < 0 then NInf else PInf)"
| "jdiv NInf (Fin b) = (if b < 0 then PInf else NInf)"
| "jdiv PInf PInf = NaN"
| "jdiv PInf NInf = NaN"
| "jdiv NInf PInf = NaN"
| "jdiv NInf NInf = NaN"

fun jgt :: "jsnum \<Rightarrow> jsnum \<Rightarrow> bool" where
  "jgt (Fin a) (Fin b) = (b < a)"
| "jgt NaN _ = False"
| "jgt _ NaN = False"
| "jgt PInf PInf = False"
| "jgt PInf _ = True"
| "jgt _ PInf = False"
| "jgt NInf _ = False"
| "jgt _ NInf = True"

fun jle :: "jsnum \<Rightarrow> jsnum \<Rightarrow> bool" where
  "jle (Fin a) (Fin b) = (a \<le> b)"
| "jle NaN _ = False"
| "jle _ NaN = False"
| "jle NInf _ = True"
| "jle _ PInf = True"
| "jle PInf _ = False"
| "jle _ NInf = False"

fun jfloor :: "jsnum \<Rightarrow> jsnum" where
  "jfloor (Fin q) = Fin (of_int \<lfloor>q\<rfloor>)"
| "jfloor x = x"

fun isNaN :: "jsnum \<Rightarrow> bool" where
  "isNaN NaN = True"
| "isNaN _ = False"

text \<open>Truthiness of a Number: everything but 0 and NaN.\<close>

fun num_truthy :: "jsnum \<Rightarrow> bool" where
  "num_truthy (Fin q) = (q \<noteq> 0)"
| "num_truthy NaN = False"
| "num_truthy _ = True"

text \<open>
  The numeric literals of the sources.  \<open>1e18\<close>, \<open>1e6\<close>, \<open>2500\<close>, \<open>100\<close>, \<open>1\<close> and \<open>0\<close> are
  integers that binary64 holds exactly; \<open>0.7\<close>, \<open>0.2\<close> and \<open>0.1\<close> denote the nearest
  binary64 values.  \<open>Math.pow(10, 6)\<close> and \<open>Math.pow(10, 18)\<close> are \<open>1e6\<close> and \<open>1e18\<close>.
\<close>

definition lit_1e18 :: jsnum where "lit_1e18 = Fin (10 ^ 18)"
definition lit_1e6 :: jsnum where "lit_1e6 = Fin (10 ^ 6)"
definition lit_0_7 :: jsnum where "lit_0_7 = rnd (7 / 10)"
definition lit_0_2 :: jsnum where "lit_0_2 = rnd (2 / 10)"
definition lit_0_1 :: jsnum where "lit_0_1 = rnd (1 / 10)"

subsection \<open>Facts about rounding\<close>

lemma bitlen_bounds: "0 < n \<Longrightarrow> 2 ^ (bitlen n - 1) \<le> n \<and> n < 2 ^ bitlen n"
proof (induction n rule: bitlen.induct)
  case (1 n)
  show ?case
  proof (cases "n div 2 = 0")
    case True
    with 1 have "n = 1" by (simp add: div_eq_0_iff)
    then show ?thesis by (simp add: bitlen.simps)
  next
    case False
    then have pos: "0 < n div 2" by simp
    from 1 have nz: "n \<noteq> 0" by simp
    from "1.IH"[OF nz pos]
    have ih: "2 ^ (bitlen (n div 2) - 1) \<le> n div 2" "n div 2 < 2 ^ bitlen (n div 2)"
      by auto
    have b: "bitlen n = Suc (bitlen (n div 2))" using nz by (subst bitlen.simps) simp
    have bp: "0 < bitlen (n div 2)" using pos by (subst bitlen.simps) simp
    have "2 ^ (bitlen n - 1) = 2 * 2 ^ (bitlen (n div 2) - 1)"
      using b bp by (cases "bitlen (n div 2)") auto
    also have "\<dots> \<le> 2 * (n div 2)" using ih(1) by simp
    also have "\<dots> \<le> n" by simp
    finally have lo: "2 ^ (bitlen n - 1) \<le> n" .
    have "n < 2 * (n div 2) + 2" by (simp add: less_mult_imp_div_less)
    also have "\<dots> \<le> 2 * 2 ^ bitlen (n div 2)" using ih(2) by simp
    finally have hi: "n < 2 ^ bitlen n" using b by simp
    from lo hi show ?thesis by simp
  qed
qed

lemma bitlen_bounds_rat:
  assumes "0 < p"
  shows "(2::rat) ^ (bitlen (nat p) - 1) \<le> of_int p" "of_int p < (2::rat) ^ bitlen (nat p)"
proof -
  from bitlen_bounds[of "nat p"] assms
  have P: "2 ^ (bitlen (nat p) - 1) \<le> nat p" "nat p < 2 ^ bitlen (nat p)" by auto
  have "(of_nat (2 ^ (bitlen (nat p) - 1)) :: rat) \<le> of_nat (nat p)"
    using P(1) by (simp only: of_nat_le_iff)
  then show "(2::rat) ^ (bitlen (nat p) - 1) \<le> of_int p" using assms by simp
  have "(of_nat (nat p) :: rat) < of_nat (2 ^ bitlen (nat p))"
    using P(2) by (simp only: of_nat_less_iff)
  then show "of_int p < (2::rat) ^ bitlen (nat p)" using assms by simp
qed

lemma ilog2_bounds:
  assumes "0 < x"
  shows "2 powi ilog2 x \<le> x \<and> x < 2 powi (ilog2 x + 1)"
proof -
  obtain p q where pq: "quotient_of x = (p, q)" by (cases "quotient_of x")
  then have q: "0 < q" by (rule quotient_of_denom_pos)
  from pq have x: "x = of_int p / of_int q" by (rule quotient_of_div)
  with assms q have p: "0 < p" by (simp add: zero_less_divide_iff)
  define bp where "bp = bitlen (nat p)"
  define bq where "bq = bitlen (nat q)"
  define k where "k = int bp - int bq"
  note Pr = bitlen_bounds_rat[OF p, folded bp_def]
  note Qr = bitlen_bounds_rat[OF q, folded bq_def]
  have bp1: "1 \<le> bp" using bitlen_bounds[of "nat p"] p by (cases bp) (auto simp: bp_def)
  have bq1: "1 \<le> bq" using bitlen_bounds[of "nat q"] q by (cases bq) (auto simp: bq_def)
  have qpos: "(0::rat) < of_int q" using q by simp
  have e1: "(2::rat) ^ (bq - 1) = 2 powi (int bq - 1)"
    using bq1 by (simp add: power_int_def nat_diff_distrib')
  have e2: "(2::rat) ^ (bp - 1) = 2 powi (int bp - 1)"
    using bp1 by (simp add: power_int_def nat_diff_distrib')
  have e3: "(2::rat) powi (k + 1) * 2 powi (int bq - 1) = 2 powi int bp"
  proof -
    have "(2::rat) powi ((k + 1) + (int bq - 1)) = 2 powi (k + 1) * 2 powi (int bq - 1)"
      by (rule power_int_add) simp
    moreover have "(k + 1) + (int bq - 1) = int bp" by (simp add: k_def)
    ultimately show ?thesis by (simp only:)
  qed
  have e4: "(2::rat) powi (k - 1) * 2 powi int bq = 2 powi (int bp - 1)"
  proof -
    have "(2::rat) powi ((k - 1) + int bq) = 2 powi (k - 1) * 2 powi int bq"
      by (rule power_int_add) simp
    moreover have "(k - 1) + int bq = int bp - 1" by (simp add: k_def)
    ultimately show ?thesis by (simp only:)
  qed
  have up: "x < 2 powi (k + 1)"
  proof -
    have "of_int p < (2::rat) powi int bp" using Pr(2) by simp
    also have "\<dots> = 2 powi (k + 1) * 2 ^ (bq - 1)" by (simp only: e1 e3)
    also have "\<dots> \<le> 2 powi (k + 1) * of_int q"
      using Qr(1) by (intro mult_left_mono) auto
    finally have "of_int p < 2 powi (k + 1) * (of_int q :: rat)" .
    then show ?thesis using qpos by (simp add: x pos_divide_less_eq)
  qed
  have lo: "2 powi (k - 1) \<le> x"
  proof -
    have "2 powi (k - 1) * of_int q \<le> (2::rat) powi (k - 1) * 2 powi int bq"
      using Qr(2) by (intro mult_left_mono) auto
    also have "\<dots> = 2 ^ (bp - 1)" by (simp only: e2 e4)
    also have "\<dots> \<le> of_int p" by (rule Pr(1))
    finally have "2 powi (k - 1) * (of_int q :: rat) \<le> of_int p" .
    then show ?thesis using qpos by (simp add: x pos_le_divide_eq)
  qed
  have il: "ilog2 x = (if 2 powi k \<le> x then k else k - 1)"
    by (simp add: ilog2_def pq k_def bp_def bq_def Let_def)
  show ?thesis
  proof (cases "2 powi k \<le> x")
    case True
    with il up show ?thesis by simp
  next
    case False
    with il lo show ?thesis by simp
  qed
qed

lemma ilog2_unique:
  assumes "2 powi e \<le> x" "x < 2 powi (e + 1)"
  shows "ilog2 x = e"
proof -
  have "(0::rat) < 2 powi e" by simp
  with assms have pos: "0 < x" by linarith
  from ilog2_bounds[OF pos] have b: "2 powi ilog2 x \<le> x" "x < 2 powi (ilog2 x + 1)" by auto
  have "\<not> ilog2 x < e"
  proof
    assume "ilog2 x < e"
    then have "ilog2 x + 1 \<le> e" by simp
    then have "(2::rat) powi (ilog2 x + 1) \<le> 2 powi e" by (intro power_int_increasing) auto
    with b(2) assms(1) show False by linarith
  qed
  moreover have "\<not> e < ilog2 x"
  proof
    assume "e < ilog2 x"
    then have "e + 1 \<le> ilog2 x" by simp
    then have "(2::rat) powi (e + 1) \<le> 2 powi ilog2 x" by (intro power_int_increasing) auto
    with b(1) assms(2) show False by linarith
  qed
  ultimately show ?thesis by linarith
qed

text \<open>Rounding a value whose binary exponent \<open>e\<close> is known.\<close>

lemma rnd_eval:
  assumes "2 powi e \<le> \<bar>x\<bar>" "\<bar>x\<bar> < 2 powi (e + 1)"
  shows "rnd x = (let u = 2 powi (max e (- 1022) - 52);
                      y = of_int (round_half_even (\<bar>x\<bar> / u)) * u
                  in if 2 powi 1024 \<le> y then (if 0 < x then PInf else NInf)
                     else Fin (if 0 < x then y else - y))"
proof -
  have "x \<noteq> 0"
  proof
    assume "x = 0"
    with assms(1) have "2 powi e \<le> (0::rat)" by simp
    moreover have "(0::rat) < 2 powi e" by simp
    ultimately show False by linarith
  qed
  moreover have "ilog2 \<bar>x\<bar> = e" using assms by (rule ilog2_unique)
  ultimately show ?thesis unfolding rnd_def Let_def by (simp only: if_False)
qed

lemma floor_rat_numeral_div [simp]:
  "\<lfloor>(numeral a :: rat) / numeral b\<rfloor> = numeral a div numeral b"
  by (metis floor_divide_of_int_eq of_int_numeral)

lemma floor_rat_one_div [simp]:
  "\<lfloor>(1 :: rat) / numeral b\<rfloor> = 1 div numeral b"
  by (metis floor_divide_of_int_eq of_int_numeral of_int_1)

lemma round_half_even_nonneg: "0 \<le> m \<Longrightarrow> 0 \<le> round_half_even m"
  by (auto simp: round_half_even_def Let_def)

lemma round_half_even_of_int [simp]: "round_half_even (of_int n) = n"
  by (simp add: round_half_even_def)

text \<open>Rounding keeps the sign: a non-negative exact result never rounds below zero.\<close>

lemma rnd_nonneg:
  assumes "0 \<le> x"
  shows "rnd x = PInf \<or> (\<exists>y. rnd x = Fin y \<and> 0 \<le> y)"
proof (cases "x = 0")
  case True
  then show ?thesis by (simp add: rnd_def)
next
  case False
  with assms have pos: "0 < x" by simp
  define u :: rat where "u = 2 powi (max (ilog2 \<bar>x\<bar>) (- 1022) - 52)"
  have u: "0 < u" by (simp add: u_def)
  have "0 \<le> \<bar>x\<bar> / u" using u by simp
  then have "0 \<le> round_half_even (\<bar>x\<bar> / u)" by (rule round_half_even_nonneg)
  then have "0 \<le> of_int (round_half_even (\<bar>x\<bar> / u)) * u" using u by simp
  then show ?thesis using pos False by (simp add: rnd_def Let_def u_def)
qed

section \<open>Strings, \<open>parseInt\<close> and \<open>parseFloat\<close>\<close>

text \<open>
  Strings are lists of characters with codes below 256.  White space is what
  \<open>parseInt\<close> and \<open>parseFloat\<close> skip at the start of their argument.
\<close>

definition is_ws :: "char \<Rightarrow> bool" where
  "is_ws c = (of_char c \<in> {9, 10, 11, 12, 13, 32, 160 :: nat})"

definition is_digit :: "char \<Rightarrow> bool" where
  "is_digit c = (48 \<le> (of_char c :: nat) \<and> (of_char c :: nat) \<le> 57)"

definition is_hex_digit :: "char \<Rightarrow> bool" where
  "is_hex_digit c = (is_digit c \<or> (65 \<le> (of_char c :: nat) \<and> (of_char c :: nat) \<le> 70)
                                 \<or> (97 \<le> (of_char c :: nat) \<and> (of_char c :: nat) \<le> 102))"

definition digit_val :: "char \<Rightarrow> nat" where
  "digit_val c = (if is_digit c then of_char c - 48
                  else if of_char c \<le> (70 :: nat) then of_char c - 55 else of_char c - 87)"

definition radix_value :: "nat \<Rightarrow> string \<Rightarrow> nat" where
  "radix_value r ds = foldl (\<lambda>acc c. r * acc + digit_val c) 0 ds"

definition has_sign :: "string \<Rightarrow> bool" where
  "has_sign s = (case s of [] \<Rightarrow> False | c # _ \<Rightarrow> c = CHR ''-'' \<or> c = CHR ''+'')"

definition is_negative :: "string \<Rightarrow> bool" where
  "is_negative s = (case s of [] \<Rightarrow> False | c # _ \<Rightarrow> c = CHR ''-'')"

text \<open>
  \<open>parseInt(s)\<close> without a radix: skip white space, take a sign, switch to radix 16 after
  \<open>0x\<close> or \<open>0X\<close>, and read the longest run of digits; no digit gives NaN, which is \<open>None\<close>
  here.  The result is kept as the exact integer: the adapters only use it as a key of
  \<open>CHAIN_ID_MAP\<close>, whose keys are integers below \<open>2^53\<close>, and the rounding of a larger integer
  never produces one of them.
\<close>

definition parseInt :: "string \<Rightarrow> int option" where
  "parseInt s =
     (let t = dropWhile is_ws s;
          u = (if has_sign t then tl t else t);
          hex = (take 2 u = ''0x'' \<or> take 2 u = ''0X'');
          ds = (if hex then takeWhile is_hex_digit (drop 2 u) else takeWhile is_digit u)
      in if ds = [] then None
         else Some ((if is_negative t then - 1 else 1) *
                    int (radix_value (if hex then 16 else 10) ds)))"

text \<open>The exponent of an \<open>ExponentPart\<close> at the start of a string, 0 when there is none.\<close>

definition exponent_part :: "string \<Rightarrow> int" where
  "exponent_part r =
     (case r of [] \<Rightarrow> 0
      | c # r1 \<Rightarrow>
          if c = CHR ''e'' \<or> c = CHR ''E'' then
            (let ds = takeWhile is_digit (if has_sign r1 then tl r1 else r1)
             in if ds = [] then 0
                else (if is_negative r1 then - 1 else 1) * int (radix_value 10 ds))
          else 0)"

text \<open>
  \<open>parseFloat(s)\<close>: skip white space, then convert the longest prefix that is a
  \<open>StrDecimalLiteral\<close> (sign, \<open>Infinity\<close> or digits with an optional fraction and exponent);
  NaN when there is none.  The decimal value is rounded to the nearest Number.
\<close>

definition parseFloat :: "string \<Rightarrow> jsnum" where
  "parseFloat s =
     (let t = dropWhile is_ws s;
          u = (if has_sign t then tl t else t);
          ip = takeWhile is_digit u;
          r1 = dropWhile is_digit u;
          dot = (r1 \<noteq> [] \<and> hd r1 = CHR ''.'');
          fp = (if dot then takeWhile is_digit (tl r1) else []);
          r2 = (if dot then dropWhile is_digit (tl r1) else r1)
      in if take 8 u = ''Infinity'' then (if is_negative t then NInf else PInf)
         else if ip = [] \<and> fp = [] then NaN
         else rnd ((if is_negative t then - 1 else 1) *
                   of_nat (radix_value 10 (ip @ fp)) *
                   10 powi (exponent_part r2 - int (length fp))))"

text \<open>\<open>s.replace(pat, '')\<close> with a string pattern: the first occurrence is removed.\<close>

fun remove_first :: "string \<Rightarrow> string \<Rightarrow> string" where
  "remove_first pat [] = []"
| "remove_first pat (c # cs) =
     (if take (length pat) (c # cs) = pat then drop (length pat) (c # cs)
      else c # remove_first pat cs)"

text \<open>\<open>s.includes(pat)\<close>.\<close>

fun str_includes :: "string \<Rightarrow> string \<Rightarrow> bool" where
  "str_includes [] pat = (pat = [])"
| "str_includes (c # cs) pat = (take (length pat) (c # cs) = pat \<or> str_includes cs pat)"

section \<open>The indexer's answer\<close>

text \<open>
  The GraphQL answer holds two connections with \<open>edges\<close>, each edge a \<open>node\<close>.  The
  indexer serialises identifiers and big integers as JSON strings, so a field of a node is a
  string, \<open>null\<close> or absent.  Nodes themselves are always objects.
\<close>

datatype jsfield = Undefined | Null | Str string

record chain_stat =
  stat_id :: jsfield
  totalTransfersIn :: jsfield

record teleport =
  assetId :: jsfield
  amount :: jsfield
  sourceChain :: jsfield
  destChain :: jsfield

text \<open>
  A connection is absent (or \<open>null\<close>), or an object whose \<open>edges\<close> are absent or a list:
  \<open>None\<close>, \<open>Some None\<close> and \<open>Some (Some edges)\<close>.
\<close>

record gql_data =
  hyperBridgeChainStats :: "chain_stat list option option"
  tokenGatewayAssetTeleporteds :: "teleport list option option"

text \<open>\<open>ToString\<close> of a field, as \<open>parseInt\<close> and property access apply it.\<close>

fun field_string :: "jsfield \<Rightarrow> string" where
  "field_string Undefined = ''undefined''"
| "field_string Null = ''null''"
| "field_string (Str s) = s"

text \<open>\<open>parseFloat(x || 0)\<close>: an absent, \<open>null\<close> or empty field is replaced by 0.\<close>

fun parseFloat_or_0 :: "jsfield \<Rightarrow> jsnum" where
  "parseFloat_or_0 (Str s) = (if s = [] then Fin 0 else parseFloat s)"
| "parseFloat_or_0 _ = Fin 0"

text \<open>The static table from chain ID to chain name; both files hold the same nine entries.\<close>

definition CHAIN_ID_MAP :: "int \<Rightarrow> string option" where
  "CHAIN_ID_MAP = map_of
     [(1, ''ethereum''), (10, ''optimism''), (56, ''bsc''), (100, ''xdai''),
      (137, ''polygon''), (1868, ''soneium''), (8453, ''base''), (42161, ''arbitrum''),
      (1301, ''unichain'')]"

text \<open>\<open>CHAIN_ID_MAP[parseInt(...)]\<close>: NaN is no key of the table.\<close>

fun chain_name :: "int option \<Rightarrow> string option" where
  "chain_name None = None"
| "chain_name (Some k) = CHAIN_ID_MAP k"

text \<open>
  \<open>CHAIN_ID_MAP[parseInt(stat.id.replace('EVM-', ''))]\<close>.  An \<open>id\<close> that is no string has no
  \<open>replace\<close> method: the call throws a TypeError, which is the outer \<open>None\<close>.
\<close>

fun stat_chain :: "chain_stat \<Rightarrow> string option option" where
  "stat_chain stat =
     (case stat_id stat of
        Str s \<Rightarrow> Some (chain_name (parseInt (remove_first ''EVM-'' s)))
      | _ \<Rightarrow> None)"

text \<open>\<open>CHAIN_ID_MAP[parseInt(teleport.sourceChain)]\<close>.\<close>

definition field_chain :: "jsfield \<Rightarrow> string option" where
  "field_chain f = chain_name (parseInt (field_string f))"

text \<open>\<open>connection.edges || []\<close> and \<open>connection?.edges || []\<close>.\<close>

fun edges_or_empty :: "'a list option \<Rightarrow> 'a list" where
  "edges_or_empty None = []"
| "edges_or_empty (Some es) = es"

fun optional_edges_or_empty :: "'a list option option \<Rightarrow> 'a list" where
  "optional_edges_or_empty None = []"
| "optional_edges_or_empty (Some c) = edges_or_empty c"

section \<open>The execution context and the external helpers\<close>

text \<open>
  \<open>ADDRESSES\<close> is \<open>helper/coreAssets.json\<close>, which is not part of these sources: it is a
  parameter of every function that reads it.  \<open>ADDRESSES[chain]\<close> may be absent, and so may
  each symbol of a chain.
\<close>

type_synonym addresses = "string \<Rightarrow> (string \<Rightarrow> string option) option"

text \<open>\<open>ADDRESSES[chain]?.SYMBOL\<close>, with the falsy empty string taken as absent.\<close>

definition address_of :: "addresses \<Rightarrow> string \<Rightarrow> string \<Rightarrow> string option" where
  "address_of A c symbol =
     (case A c of None \<Rightarrow> None
      | Some m \<Rightarrow> (case m symbol of None \<Rightarrow> None | Some a \<Rightarrow> if a = [] then None else Some a))"

text \<open>
  What an adapter does to the outside is the sequence of its calls to the SDK: the direct
  reports \<open>api.add(token, amount.toString())\<close> and \<open>api.addToken(token, amount)\<close>, and the two
  forms of \<open>sumTokens2\<close> that the fallback uses.  \<open>ToString n\<close> stands for the decimal string
  of the Number \<open>n\<close>.
\<close>

datatype num_string = ToString jsnum

datatype call =
    Add string num_string
  | AddToken string jsnum
  | SumTokens2 "string list" "string list"
  | SumTokens2_tokensAndOwners "(string \<times> string) list"

record api =
  chain :: string
  calls :: "call list"

definition issue :: "call \<Rightarrow> api \<Rightarrow> api" where
  "issue c a = a\<lparr>calls := calls a @ [c]\<rparr>"

fun is_direct_report :: "call \<Rightarrow> bool" where
  "is_direct_report (Add _ _) = True"
| "is_direct_report (AddToken _ _) = True"
| "is_direct_report _ = False"

text \<open>What the estimator of either adapter decides for the requested chain.\<close>

datatype decision = Direct jsnum | Proportional jsnum | Fallback

section \<open>First adapter: \<open>projects/hyperbridge/index.js\<close>\<close>

subsection \<open>Fetcher\<close>

text \<open>
  \<open>post\<close> is \<open>helper/http\<close>, outside these sources: it either throws (transport error,
  non-success status) or returns the response body, whose \<open>data\<close> is an object or
  absent.  \<open>getHyperbridgeTVL\<close> turns a throw into \<open>null\<close>.
\<close>

datatype post_result = PostThrows | PostReturns "gql_data option"

fun getHyperbridgeTVL_v1 :: "post_result \<Rightarrow> gql_data option" where
  "getHyperbridgeTVL_v1 PostThrows = None"
| "getHyperbridgeTVL_v1 (PostReturns d) = d"

subsection \<open>Estimator\<close>

text \<open>
  The loop over the chain stats adds every \<open>totalTransfersIn / 1e18\<close> to
  \<open>totalNetworkValue\<close>, whatever the chain (an unmapped one is only named \<open>unknown-N\<close>).
  \<open>None\<close> is the TypeError of an \<open>id\<close> that is no string.
\<close>

fun totalNetworkValue_loop :: "jsnum \<Rightarrow> chain_stat list \<Rightarrow> jsnum option" where
  "totalNetworkValue_loop totalNetworkValue [] = Some totalNetworkValue"
| "totalNetworkValue_loop totalNetworkValue (stat # stats) =
     (case stat_chain stat of
        None \<Rightarrow> None
      | Some _ \<Rightarrow>
          totalNetworkValue_loop
            (jadd totalNetworkValue (jdiv (parseFloat_or_0 (totalTransfersIn stat)) lit_1e18))
            stats)"

text \<open>
  The loop over the teleports keeps \<open>assetAnalysis[assetId]\<close> for the log and adds every
  \<open>amount / 1e18\<close> to \<open>totalTeleportValue\<close>.  \<open>assetAnalysis\<close> is a plain object: for an
  \<open>assetId\<close> that names a member of \<open>Object.prototype\<close> the lookup finds that member, no
  entry is created, and \<open>.chains.add\<close> throws a TypeError (\<open>None\<close>).
\<close>

definition Object_prototype_names :: "string list" where
  "Object_prototype_names =
     [''constructor'', ''__defineGetter__'', ''__defineSetter__'', ''hasOwnProperty'',
      ''__lookupGetter__'', ''__lookupSetter__'', ''isPrototypeOf'', ''propertyIsEnumerable'',
      ''toString'', ''valueOf'', ''__proto__'', ''toLocaleString'']"

fun totalTeleportValue_loop :: "jsnum \<Rightarrow> teleport list \<Rightarrow> jsnum option" where
  "totalTeleportValue_loop totalTeleportValue [] = Some totalTeleportValue"
| "totalTeleportValue_loop totalTeleportValue (t # ts) =
     (if field_string (assetId t) \<in> set Object_prototype_names then None
      else totalTeleportValue_loop
             (jadd totalTeleportValue (jdiv (parseFloat_or_0 (amount t)) lit_1e18)) ts)"

text \<open>The teleports that involve the requested chain, as source or as destination.\<close>

definition involves :: "string \<Rightarrow> teleport \<Rightarrow> bool" where
  "involves c t = (field_chain (sourceChain t) = Some c \<or> field_chain (destChain t) = Some c)"

fun chainTeleportValue_loop :: "string \<Rightarrow> jsnum \<Rightarrow> teleport list \<Rightarrow> jsnum" where
  "chainTeleportValue_loop c chainTeleportValue [] = chainTeleportValue"
| "chainTeleportValue_loop c chainTeleportValue (t # ts) =
     (if involves c t
      then chainTeleportValue_loop c
             (jadd chainTeleportValue (jdiv (parseFloat_or_0 (amount t)) lit_1e18)) ts
      else chainTeleportValue_loop c chainTeleportValue ts)"

text \<open>\<open>chainStats.find(...)\<close>: the first stat whose mapped name is the requested chain.\<close>

definition find_chainStat :: "string \<Rightarrow> chain_stat list \<Rightarrow> chain_stat option" where
  "find_chainStat c chainStats = find (\<lambda>stat. stat_chain stat = Some (Some c)) chainStats"

definition chainProportion_v1 :: "jsnum \<Rightarrow> jsnum \<Rightarrow> jsnum" where
  "chainProportion_v1 chainNetworkValue totalNetworkValue =
     (if jgt totalNetworkValue (Fin 0) then jdiv chainNetworkValue totalNetworkValue else Fin 0)"

definition chainProportionalValue_v1 :: "jsnum \<Rightarrow> jsnum \<Rightarrow> chain_stat \<Rightarrow> jsnum" where
  "chainProportionalValue_v1 totalNetworkValue totalTeleportValue chainStat =
     (let chainTransfersIn = parseFloat_or_0 (totalTransfersIn chainStat);
          chainNetworkValue = jdiv chainTransfersIn lit_1e18;
          chainProportion = chainProportion_v1 chainNetworkValue totalNetworkValue
      in jmul totalTeleportValue chainProportion)"

text \<open>
  The body of the \<open>try\<close> block once the two edge lists are there.  A TypeError of either
  loop reaches the \<open>catch\<close>, which falls back.
\<close>

definition estimate_v1 :: "string \<Rightarrow> chain_stat list \<Rightarrow> teleport list \<Rightarrow> decision" where
  "estimate_v1 c chainStats teleports =
     (case totalNetworkValue_loop (Fin 0) chainStats of
        None \<Rightarrow> Fallback
      | Some totalNetworkValue \<Rightarrow>
     (case totalTeleportValue_loop (Fin 0) teleports of
        None \<Rightarrow> Fallback
      | Some totalTeleportValue \<Rightarrow>
          (let chainTeleportValue = chainTeleportValue_loop c (Fin 0) teleports
           in if jgt chainTeleportValue (Fin 100) then Direct chainTeleportValue
              else (case find_chainStat c chainStats of
                      None \<Rightarrow> Fallback
                    | Some chainStat \<Rightarrow>
                        if jgt totalTeleportValue (Fin 0) then
                          (let chainProportionalValue =
                                 chainProportionalValue_v1 totalNetworkValue totalTeleportValue
                                   chainStat
                           in if jgt chainProportionalValue (Fin 1)
                              then Proportional chainProportionalValue else Fallback)
                        else Fallback))))"

subsection \<open>Token Allocator\<close>

definition addTokensToAPI_v1 :: "addresses \<Rightarrow> jsnum \<Rightarrow> api \<Rightarrow> api" where
  "addTokensToAPI_v1 A usdValue a =
     (let usdcAddress = address_of A (chain a) ''USDC'';
          usdtAddress = address_of A (chain a) ''USDT'';
          daiAddress = address_of A (chain a) ''DAI'';
          a1 = (case usdcAddress of None \<Rightarrow> a
                | Some token \<Rightarrow>
                    issue (Add token (ToString (jfloor (jmul (jmul usdValue lit_0_7) lit_1e6)))) a);
          a2 = (case usdtAddress of None \<Rightarrow> a1
                | Some token \<Rightarrow>
                    issue (Add token (ToString (jfloor (jmul (jmul usdValue lit_0_2) lit_1e6)))) a1);
          a3 = (case daiAddress of None \<Rightarrow> a2
                | Some token \<Rightarrow>
                    issue (Add token (ToString (jfloor (jmul (jmul usdValue lit_0_1) lit_1e18)))) a2)
      in if usdcAddress = None \<and> usdtAddress = None \<and> daiAddress = None
         then (case address_of A (chain a) ''WETH'' of None \<Rightarrow> a3
               | Some token \<Rightarrow>
                   issue (Add token
                     (ToString (jfloor (jmul (jdiv usdValue (Fin 2500)) lit_1e18)))) a3)
         else a3)"

subsection \<open>Fallback Prober\<close>

definition tokenGatewayAddresses :: "string \<Rightarrow> string option" where
  "tokenGatewayAddresses = map_of
     [(''ethereum'', ''0xFd413e3AFe560182C4471F4d143A96d3e259B6dE''),
      (''arbitrum'', ''0xFd413e3AFe560182C4471F4d143A96d3e259B6dE''),
      (''optimism'', ''0xFd413e3AFe560182C4471F4d143A96d3e259B6dE''),
      (''base'', ''0xFd413e3AFe560182C4471F4d143A96d3e259B6dE''),
      (''bsc'', ''0xFd413e3AFe560182C4471F4d143A96d3e259B6dE''),
      (''xdai'', ''0xFd413e3AFe560182C4471F4d143A96d3e259B6dE''),
      (''polygon'', ''0x8b536105b6Fae2aE9199f5146D3C57Dfe53b614E''),
      (''soneium'', ''0xCe304770236f39F9911BfCC51afBdfF3b8635718''),
      (''unichain'', ''0x8b536105b6Fae2aE9199f5146D3C57Dfe53b614E'')]"

definition DOT_BRIDGE_CONTRACT :: string where
  "DOT_BRIDGE_CONTRACT = ''0x8d010bf9c26881788b4e6bf5fd1bdc358c8f90b8''"

definition DOT_CONTRACT_CHAINS :: "string list" where
  "DOT_CONTRACT_CHAINS = [''ethereum'', ''arbitrum'', ''optimism'', ''base'', ''bsc'', ''xdai'']"

text \<open>\<open>if (ADDRESSES[chain].SYMBOL) tokens.push(ADDRESSES[chain].SYMBOL)\<close>.\<close>

definition push_if_present :: "addresses \<Rightarrow> string \<Rightarrow> string \<Rightarrow> string list" where
  "push_if_present A c symbol = (case address_of A c symbol of None \<Rightarrow> [] | Some t \<Rightarrow> [t])"

definition fallback_tokens_v1 :: "addresses \<Rightarrow> string \<Rightarrow> string list" where
  "fallback_tokens_v1 A c =
     concat (map (push_if_present A c)
       [''USDC'', ''USDT'', ''DAI'', ''BUSD'', ''FRAX'', ''USDE'',
        ''WETH'', ''STETH'', ''WSTETH'', ''RETH'',
        ''WBTC'', ''tBTC'',
        ''LINK'', ''UNI'', ''AAVE'']) @
     (if c = ''polygon'' then push_if_present A c ''MATIC'' else []) @
     (if c = ''arbitrum'' then push_if_present A c ''ARB'' else []) @
     (if c = ''optimism'' then push_if_present A c ''OP'' else []) @
     (if c = ''bsc'' then push_if_present A c ''WBNB'' else [])"

definition fallback_owners_v1 :: "string \<Rightarrow> string list" where
  "fallback_owners_v1 c =
     (case tokenGatewayAddresses c of None \<Rightarrow> [] | Some tokenGatewayAddress \<Rightarrow> [tokenGatewayAddress]) @
     (if c \<in> set DOT_CONTRACT_CHAINS then [DOT_BRIDGE_CONTRACT] else [])"

definition fallbackContractTVL_v1 :: "addresses \<Rightarrow> api \<Rightarrow> api" where
  "fallbackContractTVL_v1 A a =
     issue (SumTokens2 (fallback_owners_v1 (chain a)) (fallback_tokens_v1 A (chain a))) a"

subsection \<open>The entry point\<close>

definition calculateTVLFromAPI_v1 :: "addresses \<Rightarrow> post_result \<Rightarrow> api \<Rightarrow> api" where
  "calculateTVLFromAPI_v1 A response a =
     (case getHyperbridgeTVL_v1 response of
        None \<Rightarrow> fallbackContractTVL_v1 A a
      | Some data \<Rightarrow>
     (case hyperBridgeChainStats data of
        None \<Rightarrow> fallbackContractTVL_v1 A a
      | Some connection \<Rightarrow>
          (case estimate_v1 (chain a) (edges_or_empty connection)
                  (optional_edges_or_empty (tokenGatewayAssetTeleporteds data)) of
             Direct chainTeleportValue \<Rightarrow> addTokensToAPI_v1 A chainTeleportValue a
           | Proportional chainProportionalValue \<Rightarrow> addTokensToAPI_v1 A chainProportionalValue a
           | Fallback \<Rightarrow> fallbackContractTVL_v1 A a)))"

section \<open>Second adapter: \<open>unnamed/part_000\<close>\<close>

subsection \<open>Fetcher\<close>

text \<open>
  \<open>fetch\<close> throws or returns a response with its \<open>ok\<close> flag; \<open>response.json()\<close> throws or
  returns an object with \<open>errors\<close> (only its truthiness matters) and \<open>data\<close>.
\<close>

datatype json_result = JsonThrows | JsonReturns bool "gql_data option"

datatype fetch_result = FetchThrows | FetchReturns bool json_result

fun getHyperbridgeTVL_v2 :: "fetch_result \<Rightarrow> gql_data option" where
  "getHyperbridgeTVL_v2 FetchThrows = None"
| "getHyperbridgeTVL_v2 (FetchReturns ok result) =
     (if \<not> ok then None
      else (case result of
              JsonThrows \<Rightarrow> None
            | JsonReturns errors d \<Rightarrow> if errors then None else d))"

subsection \<open>Estimator\<close>

text \<open>
  \<open>ASSET_ID_MAP[assetId]\<close>.  The table is a plain object with the entries \<open>USDC\<close>, \<open>USDT\<close> and
  \<open>DAI\<close>, each mapped to itself.  The lookup of any other name goes on in \<open>Object.prototype\<close>:
  \<open>__proto__\<close> yields \<open>Object.prototype\<close> itself, \<open>constructor\<close> the function \<open>Object\<close>, and
  every other member the native function of that name.
\<close>

datatype asset_value = Asset_field jsfield | Object_prototype | Native_function string

definition ASSET_ID_MAP :: "string \<Rightarrow> asset_value option" where
  "ASSET_ID_MAP k =
     (if k \<in> set [''USDC'', ''USDT'', ''DAI''] then Some (Asset_field (Str k))
      else if k = ''__proto__'' then Some Object_prototype
      else if k = ''constructor'' then Some (Native_function ''Object'')
      else if k \<in> set Object_prototype_names then Some (Native_function k)
      else None)"

text \<open>\<open>ASSET_ID_MAP[assetId] || assetId\<close>: every value that the lookup finds is truthy.\<close>

definition asset_of :: "jsfield \<Rightarrow> asset_value" where
  "asset_of asset_id =
     (case ASSET_ID_MAP (field_string asset_id) of
        Some v \<Rightarrow> v
      | None \<Rightarrow> Asset_field asset_id)"

text \<open>
  The property key of \<open>assetMap[asset]\<close> is \<open>ToString\<close> of the asset: for \<open>Object.prototype\<close>
  the string \<open>[object Object]\<close>, for a native function its source text as Node prints it.
\<close>

fun property_key :: "asset_value \<Rightarrow> string" where
  "property_key (Asset_field f) = field_string f"
| "property_key Object_prototype = ''[object Object]''"
| "property_key (Native_function name) = ''function '' @ name @ ''() { [native code] }''"

text \<open>
  Objects used as dictionaries are association lists in insertion order.  \<open>assetMap\<close> groups
  the teleports by the property key of their asset, so two asset ids with the same key
  (as \<open>__proto__\<close> and \<open>[object Object]\<close>, or \<open>null\<close> and the string \<open>null\<close>) share a group.
  No key is the name of a member of \<open>Object.prototype\<close> (\<open>property_key_not_inherited\<close> below),
  so \<open>assetMap[asset]\<close> only ever finds the arrays that the loop has stored.
\<close>

fun assetMap_push :: "string \<Rightarrow> teleport \<Rightarrow> (string \<times> teleport list) list
                       \<Rightarrow> (string \<times> teleport list) list" where
  "assetMap_push asset t [] = [(asset, [t])]"
| "assetMap_push asset t ((k, ts) # m) =
     (if k = asset then (k, ts @ [t]) # m else (k, ts) # assetMap_push asset t m)"

fun assetMap_loop :: "(string \<times> teleport list) list \<Rightarrow> teleport list
                       \<Rightarrow> (string \<times> teleport list) list" where
  "assetMap_loop assetMap [] = assetMap"
| "assetMap_loop assetMap (t # ts) =
     assetMap_loop (assetMap_push (property_key (asset_of (assetId t))) t assetMap) ts"

text \<open>
  \<open>Object.keys\<close> lists the keys that are array indices (canonical decimal integers below
  \<open>2^32 - 1\<close>) first, in ascending order, then the other keys in insertion order.
\<close>

definition is_array_index :: "string \<Rightarrow> bool" where
  "is_array_index k = (k \<noteq> [] \<and> list_all is_digit k \<and> (k = ''0'' \<or> hd k \<noteq> CHR ''0'')
                        \<and> radix_value 10 k < 2 ^ 32 - 1)"

definition object_keys :: "(string \<times> 'a) list \<Rightarrow> string list" where
  "object_keys m = sort_key (radix_value 10) (filter is_array_index (map fst m)) @
                   filter (\<lambda>k. \<not> is_array_index k) (map fst m)"

text \<open>The \<open>reduce\<close> over the teleports of one asset: a NaN amount counts as 0.\<close>

definition totalAmount_v2 :: "teleport list \<Rightarrow> jsnum" where
  "totalAmount_v2 ts =
     foldl (\<lambda>sum t. let amount = parseFloat_or_0 (amount t)
                     in jadd sum (if isNaN amount then Fin 0 else amount)) (Fin 0) ts"

text \<open>\<open>Math.pow(10, decimals)\<close> with 6 decimals for an asset named like USDC or USDT, else 18.\<close>

definition pow10_decimals_v2 :: "string \<Rightarrow> jsnum" where
  "pow10_decimals_v2 asset =
     (if str_includes asset ''USDC'' \<or> str_includes asset ''USDT'' then lit_1e6 else lit_1e18)"

definition usdValue_v2 :: "(string \<times> teleport list) list \<Rightarrow> string \<Rightarrow> jsnum" where
  "usdValue_v2 assetMap asset =
     jdiv (totalAmount_v2 (case map_of assetMap asset of None \<Rightarrow> [] | Some ts \<Rightarrow> ts))
          (pow10_decimals_v2 asset)"

definition totalTeleportValue_v2 :: "teleport list \<Rightarrow> jsnum" where
  "totalTeleportValue_v2 teleports =
     (let assetMap = assetMap_loop [] teleports;
          uniqueAssets = object_keys assetMap
      in foldl (\<lambda>totalTeleportValue asset. jadd totalTeleportValue (usdValue_v2 assetMap asset))
           (Fin 0) uniqueAssets)"

text \<open>
  \<open>chainTransferData[statChain] = ...\<close>: a new key is appended, a known key keeps its place.
  Only a stat whose chain ID is in the table is stored.
\<close>

fun object_set :: "string \<Rightarrow> 'a \<Rightarrow> (string \<times> 'a) list \<Rightarrow> (string \<times> 'a) list" where
  "object_set k v [] = [(k, v)]"
| "object_set k v ((k', v') # m) =
     (if k' = k then (k', v) # m else (k', v') # object_set k v m)"

fun chainTransferData_loop :: "(string \<times> jsnum) list \<Rightarrow> chain_stat list
                                \<Rightarrow> (string \<times> jsnum) list option" where
  "chainTransferData_loop chainTransferData [] = Some chainTransferData"
| "chainTransferData_loop chainTransferData (stat # stats) =
     (case stat_chain stat of
        None \<Rightarrow> None
      | Some None \<Rightarrow> chainTransferData_loop chainTransferData stats
      | Some (Some statChain) \<Rightarrow>
          chainTransferData_loop
            (object_set statChain (jdiv (parseFloat_or_0 (totalTransfersIn stat)) lit_1e18)
               chainTransferData)
            stats)"

text \<open>\<open>Object.values(chainTransferData).reduce((sum, val) => sum + val, 0)\<close>.\<close>

definition totalNetworkTransfers_v2 :: "(string \<times> jsnum) list \<Rightarrow> jsnum" where
  "totalNetworkTransfers_v2 chainTransferData = foldl jadd (Fin 0) (map snd chainTransferData)"

text \<open>\<open>chainTransferData[api.chain] || 0\<close>.\<close>

definition chainTransfers_v2 :: "(string \<times> jsnum) list \<Rightarrow> string \<Rightarrow> jsnum" where
  "chainTransfers_v2 chainTransferData c =
     (case map_of chainTransferData c of
        None \<Rightarrow> Fin 0
      | Some v \<Rightarrow> if num_truthy v then v else Fin 0)"

definition estimate_v2 :: "string \<Rightarrow> chain_stat list \<Rightarrow> teleport list \<Rightarrow> decision" where
  "estimate_v2 c chainStats teleports =
     (let scaledTeleportValue = totalTeleportValue_v2 teleports
      in case chainTransferData_loop [] chainStats of
           None \<Rightarrow> Fallback
         | Some chainTransferData \<Rightarrow>
             (let totalNetworkTransfers = totalNetworkTransfers_v2 chainTransferData;
                  chainTransfers = chainTransfers_v2 chainTransferData c
              in if jgt totalNetworkTransfers (Fin 0) \<and> jgt chainTransfers (Fin 0)
                 then Proportional
                        (jmul scaledTeleportValue (jdiv chainTransfers totalNetworkTransfers))
                 else Fallback))"

subsection \<open>Token Allocator\<close>

definition addTokensToAPI_v2 :: "addresses \<Rightarrow> jsnum \<Rightarrow> api \<Rightarrow> api" where
  "addTokensToAPI_v2 A tvlAmount a =
     (if jle tvlAmount (Fin 0) then a
      else (case address_of A (chain a) ''USDC'' of
              Some usdc \<Rightarrow> issue (AddToken usdc (jfloor (jmul tvlAmount lit_1e6))) a
            | None \<Rightarrow>
                (let usdt = address_of A (chain a) ''USDT'';
                     fallbackToken = (case usdt of Some t \<Rightarrow> Some t
                                      | None \<Rightarrow> address_of A (chain a) ''DAI'')
                 in case fallbackToken of
                      None \<Rightarrow> a
                    | Some token \<Rightarrow>
                        issue (AddToken token
                          (jfloor (jmul tvlAmount (if usdt \<noteq> None then lit_1e6 else lit_1e18))))
                          a)))"

subsection \<open>Fallback Prober\<close>

definition TOKEN_GATEWAY :: string where
  "TOKEN_GATEWAY = ''0xFd413e3AFe560182C4471F4d143A96d3e259B6dE''"

definition DOT_BRIDGE :: string where
  "DOT_BRIDGE = ''0x8d010bf9c26881788b4e6bf5fd1bdc358c8f90b8''"

definition tokensAndOwners_for :: "addresses \<Rightarrow> string \<Rightarrow> string \<Rightarrow> (string \<times> string) list" where
  "tokensAndOwners_for A c symbol =
     (case address_of A c symbol of None \<Rightarrow> []
      | Some t \<Rightarrow> [(t, TOKEN_GATEWAY), (t, DOT_BRIDGE)])"

definition fallbackContractTVL_v2 :: "addresses \<Rightarrow> api \<Rightarrow> api" where
  "fallbackContractTVL_v2 A a =
     (let tokensAndOwners = tokensAndOwners_for A (chain a) ''USDC'' @
                            tokensAndOwners_for A (chain a) ''USDT'' @
                            tokensAndOwners_for A (chain a) ''DAI''
      in if tokensAndOwners = [] then a
         else issue (SumTokens2_tokensAndOwners tokensAndOwners) a)"

subsection \<open>The entry point\<close>

definition calculateTVLFromAPI_v2 :: "addresses \<Rightarrow> fetch_result \<Rightarrow> api \<Rightarrow> api" where
  "calculateTVLFromAPI_v2 A response a =
     (case getHyperbridgeTVL_v2 response of
        None \<Rightarrow> fallbackContractTVL_v2 A a
      | Some data \<Rightarrow>
     (case hyperBridgeChainStats data of
        None \<Rightarrow> fallbackContractTVL_v2 A a
      | Some connection \<Rightarrow>
          (case estimate_v2 (chain a) (edges_or_empty connection)
                  (optional_edges_or_empty (tokenGatewayAssetTeleporteds data)) of
             Direct chainTVL \<Rightarrow> addTokensToAPI_v2 A chainTVL a
           | Proportional chainTVL \<Rightarrow> addTokensToAPI_v2 A chainTVL a
           | Fallback \<Rightarrow> fallbackContractTVL_v2 A a)))"

section \<open>Evaluation lemmas\<close>

subsection \<open>Values that binary64 holds exactly\<close>

lemma rnd_0 [simp]: "rnd 0 = Fin 0"
  by (simp add: rnd_def)

lemma rnd_exact:
  assumes x: "x = of_int m * 2 powi k" and m: "\<bar>m\<bar> < 2 ^ 53" and k: "- 1074 \<le> k"
    and fin: "\<bar>x\<bar> < 2 powi 1024"
  shows "rnd x = Fin x"
proof (cases "x = 0")
  case True
  then show ?thesis by simp
next
  case False
  define a where "a = \<bar>x\<bar>"
  define e where "e = max (ilog2 a) (- 1022)"
  define u :: rat where "u = 2 powi (e - 52)"
  have apos: "0 < a" using False by (simp add: a_def)
  have a: "a = of_int \<bar>m\<bar> * 2 powi k" by (simp add: a_def x abs_mult)
  from ilog2_bounds[OF apos] have lo: "2 powi ilog2 a \<le> a" by simp
  have "of_int \<bar>m\<bar> < (2::rat) ^ 53"
  proof -
    have "(of_int \<bar>m\<bar> :: rat) < of_int (2 ^ 53)" using m by (simp only: of_int_less_iff)
    then show ?thesis by simp
  qed
  then have "a < 2 ^ 53 * 2 powi k" unfolding a by (intro mult_strict_right_mono) auto
  also have "\<dots> = 2 powi (53 + k)"
  proof -
    have "(2::rat) powi (53 + k) = 2 powi 53 * 2 powi k" by (rule power_int_add) simp
    then show ?thesis by simp
  qed
  finally have "2 powi ilog2 a < (2::rat) powi (53 + k)" using lo by linarith
  then have "ilog2 a < 53 + k"
    by (metis linorder_not_less one_le_numeral power_int_increasing)
  then have j: "0 \<le> k - (e - 52)" using k by (simp add: e_def)
  have "a / u = of_int \<bar>m\<bar> * (2 powi k / 2 powi (e - 52))" by (simp add: a u_def)
  also have "2 powi k / 2 powi (e - 52) = (2::rat) powi (k - (e - 52))"
    by (rule power_int_diff[symmetric]) simp
  also have "\<dots> = 2 ^ nat (k - (e - 52))" using j by (simp add: power_int_def)
  finally have "a / u = of_int (\<bar>m\<bar> * 2 ^ nat (k - (e - 52)))" by simp
  then have "of_int (round_half_even (a / u)) * u = a / u * u" by (simp only: round_half_even_of_int)
  also have "\<dots> = a" by (simp add: u_def)
  finally have y: "of_int (round_half_even (a / u)) * u = a" .
  have "rnd x = (if 2 powi 1024 \<le> of_int (round_half_even (a / u)) * u
                 then (if 0 < x then PInf else NInf)
                 else Fin (if 0 < x then of_int (round_half_even (a / u)) * u
                           else - (of_int (round_half_even (a / u)) * u)))"
    using False unfolding rnd_def Let_def a_def e_def u_def by (simp only: if_False)
  also have "\<dots> = Fin (if 0 < x then a else - a)"
    using fin unfolding y by (simp add: a_def)
  also have "\<dots> = Fin x" by (simp add: a_def)
  finally show ?thesis .
qed

lemma small_less_pow1024: "\<bar>x\<bar> < (2::rat) ^ 53 \<Longrightarrow> \<bar>x\<bar> < 2 powi 1024"
proof -
  assume "\<bar>x\<bar> < (2::rat) ^ 53"
  moreover have "(2::rat) powi 53 \<le> 2 powi 1024" by (rule power_int_increasing) auto
  moreover have "(2::rat) powi 53 = 2 ^ 53" by (rule power_int_numeral)
  ultimately show ?thesis by (simp only:)
qed

lemma rnd_of_int:
  assumes "\<bar>m\<bar> < 2 ^ 53"
  shows "rnd (of_int m) = Fin (of_int m)"
proof (rule rnd_exact[where m = m and k = 0])
  show "(of_int m :: rat) = of_int m * 2 powi 0" by simp
  show "\<bar>m\<bar> < 2 ^ 53" by (rule assms)
  show "- 1074 \<le> (0::int)" by simp
  have "(of_int \<bar>m\<bar> :: rat) < of_int (2 ^ 53)" using assms by (simp only: of_int_less_iff)
  then have "\<bar>of_int m :: rat\<bar> < 2 ^ 53" by simp
  then show "\<bar>of_int m :: rat\<bar> < 2 powi 1024" by (rule small_less_pow1024)
qed

lemma rnd_numeral [simp]: "numeral w < (2 ^ 53 :: int) \<Longrightarrow> rnd (numeral w) = Fin (numeral w)"
  using rnd_of_int[of "numeral w"] by simp

lemma rnd_1 [simp]: "rnd 1 = Fin 1"
  using rnd_of_int[of 1] by simp

subsection \<open>Decimal strings\<close>

lemma digit_not_ws: "is_digit c \<Longrightarrow> \<not> is_ws c"
  by (auto simp: is_digit_def is_ws_def)

lemma digit_not_special:
  "is_digit c \<Longrightarrow> c \<noteq> CHR ''-'' \<and> c \<noteq> CHR ''+'' \<and> c \<noteq> CHR ''I'' \<and> c \<noteq> CHR ''x'' \<and> c \<noteq> CHR ''X''"
  by (auto simp: is_digit_def)

lemma takeWhile_all: "list_all P xs \<Longrightarrow> takeWhile P xs = xs"
  by (induction xs) auto

lemma dropWhile_all: "list_all P xs \<Longrightarrow> dropWhile P xs = []"
  by (induction xs) auto

text \<open>A non-empty string of decimal digits is parsed as the integer it denotes.\<close>

lemma parseFloat_digits:
  assumes "ds \<noteq> []" "list_all is_digit ds"
  shows "parseFloat ds = rnd (of_nat (radix_value 10 ds))"
proof -
  obtain c cs where ds: "ds = c # cs" using assms(1) by (cases ds) auto
  with assms(2) have c: "is_digit c" by simp
  have t: "dropWhile is_ws ds = ds" using digit_not_ws[OF c] by (simp add: ds)
  have s: "\<not> has_sign ds" "\<not> is_negative ds"
    using digit_not_special[OF c] by (auto simp: has_sign_def is_negative_def ds)
  have inf: "take 8 ds \<noteq> ''Infinity''" using digit_not_special[OF c] by (auto simp: ds)
  show ?thesis
    using assms s inf
    by (simp add: parseFloat_def t takeWhile_all dropWhile_all exponent_part_def Let_def)
qed

lemma digits_no_hex_prefix:
  assumes "list_all is_digit ds"
  shows "take 2 ds \<noteq> ''0x'' \<and> take 2 ds \<noteq> ''0X''"
proof (cases ds)
  case Nil
  then show ?thesis by simp
next
  case (Cons c cs)
  show ?thesis
  proof (cases cs)
    case Nil
    then show ?thesis by (simp add: Cons)
  next
    case (Cons d es)
    with assms \<open>ds = c # cs\<close> have "is_digit d" by simp
    from digit_not_special[OF this] show ?thesis by (auto simp: Cons \<open>ds = c # cs\<close>)
  qed
qed

lemma parseInt_digits:
  assumes "ds \<noteq> []" "list_all is_digit ds"
  shows "parseInt ds = Some (int (radix_value 10 ds))"
proof -
  obtain c cs where ds: "ds = c # cs" using assms(1) by (cases ds) auto
  with assms(2) have c: "is_digit c" by simp
  have t: "dropWhile is_ws ds = ds" using digit_not_ws[OF c] by (simp add: ds)
  have s: "\<not> has_sign ds" "\<not> is_negative ds"
    using digit_not_special[OF c] by (auto simp: has_sign_def is_negative_def ds)
  show ?thesis
    using assms s digits_no_hex_prefix[OF assms(2)]
    by (simp add: parseInt_def t takeWhile_all Let_def)
qed

lemma is_digit_simps [simp]:
  "is_digit (CHR ''0'')" "is_digit (CHR ''1'')" "is_digit (CHR ''2'')" "is_digit (CHR ''3'')"
  "is_digit (CHR ''4'')" "is_digit (CHR ''5'')" "is_digit (CHR ''6'')" "is_digit (CHR ''7'')"
  "is_digit (CHR ''8'')" "is_digit (CHR ''9'')"
  by (simp_all add: is_digit_def)

lemma digit_val_simps [simp]:
  "digit_val (CHR ''0'') = 0" "digit_val (CHR ''1'') = 1" "digit_val (CHR ''2'') = 2"
  "digit_val (CHR ''3'') = 3" "digit_val (CHR ''4'') = 4" "digit_val (CHR ''5'') = 5"
  "digit_val (CHR ''6'') = 6" "digit_val (CHR ''7'') = 7" "digit_val (CHR ''8'') = 8"
  "digit_val (CHR ''9'') = 9"
  by (simp_all add: digit_val_def is_digit_def)

section \<open>The calls of one invocation\<close>

text \<open>The calls that an invocation appends to those already recorded by the context.\<close>

definition new_calls :: "api \<Rightarrow> api \<Rightarrow> call list" where
  "new_calls before after = drop (length (calls before)) (calls after)"

text \<open>
  The branches of the two Token Allocators, read as a plan: a share of the estimate in a
  token with its scale \<open>10^decimals\<close>, the whole estimate in a token, or the whole estimate
  priced at a fixed unit price.  \<open>addTokensToAPI_v1_plan\<close> and \<open>addTokensToAPI_v2_plan\<close> below
  show that the allocators issue exactly the reports of their plans.
\<close>

datatype allocation =
    Share string jsnum jsnum
  | Whole string jsnum
  | Priced string jsnum jsnum

fun raw_amount :: "jsnum \<Rightarrow> allocation \<Rightarrow> jsnum" where
  "raw_amount usd (Share token fraction scale) = jmul (jmul usd fraction) scale"
| "raw_amount usd (Whole token scale) = jmul usd scale"
| "raw_amount usd (Priced token price scale) = jmul (jdiv usd price) scale"

fun allocation_token :: "allocation \<Rightarrow> string" where
  "allocation_token (Share token fraction scale) = token"
| "allocation_token (Whole token scale) = token"
| "allocation_token (Priced token price scale) = token"

definition report_v1 :: "jsnum \<Rightarrow> allocation \<Rightarrow> call" where
  "report_v1 usd al = Add (allocation_token al) (ToString (jfloor (raw_amount usd al)))"

definition report_v2 :: "jsnum \<Rightarrow> allocation \<Rightarrow> call" where
  "report_v2 usd al = AddToken (allocation_token al) (jfloor (raw_amount usd al))"

definition stablecoin_plan_v1 :: "addresses \<Rightarrow> string \<Rightarrow> allocation list" where
  "stablecoin_plan_v1 A c =
     (case address_of A c ''USDC'' of None \<Rightarrow> [] | Some t \<Rightarrow> [Share t lit_0_7 lit_1e6]) @
     (case address_of A c ''USDT'' of None \<Rightarrow> [] | Some t \<Rightarrow> [Share t lit_0_2 lit_1e6]) @
     (case address_of A c ''DAI'' of None \<Rightarrow> [] | Some t \<Rightarrow> [Share t lit_0_1 lit_1e18])"

definition plan_v1 :: "addresses \<Rightarrow> string \<Rightarrow> allocation list" where
  "plan_v1 A c =
     (if stablecoin_plan_v1 A c = []
      then (case address_of A c ''WETH'' of None \<Rightarrow> []
            | Some t \<Rightarrow> [Priced t (Fin 2500) lit_1e18])
      else stablecoin_plan_v1 A c)"

definition plan_v2 :: "addresses \<Rightarrow> string \<Rightarrow> allocation list" where
  "plan_v2 A c =
     (case address_of A c ''USDC'' of
        Some t \<Rightarrow> [Whole t lit_1e6]
      | None \<Rightarrow>
          (case address_of A c ''USDT'' of
             Some t \<Rightarrow> [Whole t lit_1e6]
           | None \<Rightarrow>
               (case address_of A c ''DAI'' of
                  Some t \<Rightarrow> [Whole t lit_1e18]
                | None \<Rightarrow> [])))"

lemma calls_issue [simp]: "calls (issue c a) = calls a @ [c]"
  by (simp add: issue_def)

lemma chain_issue [simp]: "chain (issue c a) = chain a"
  by (simp add: issue_def)

lemma new_calls_append [simp]: "new_calls a (a\<lparr>calls := calls a @ cs\<rparr>) = cs"
  by (simp add: new_calls_def)

lemma new_calls_same [simp]: "new_calls a a = []"
  by (simp add: new_calls_def)

lemma addTokensToAPI_v1_plan:
  "addTokensToAPI_v1 A usd a = a\<lparr>calls := calls a @ map (report_v1 usd) (plan_v1 A (chain a))\<rparr>"
  by (simp add: addTokensToAPI_v1_def plan_v1_def stablecoin_plan_v1_def report_v1_def
      issue_def Let_def split: option.splits)

lemma addTokensToAPI_v2_plan:
  "addTokensToAPI_v2 A usd a =
     (if jle usd (Fin 0) then a
      else a\<lparr>calls := calls a @ map (report_v2 usd) (plan_v2 A (chain a))\<rparr>)"
  by (simp add: addTokensToAPI_v2_def plan_v2_def report_v2_def issue_def Let_def
      split: option.splits)

lemma fallbackContractTVL_v1_calls:
  "fallbackContractTVL_v1 A a =
     a\<lparr>calls := calls a @ [SumTokens2 (fallback_owners_v1 (chain a)) (fallback_tokens_v1 A (chain a))]\<rparr>"
  by (simp add: fallbackContractTVL_v1_def issue_def)

definition fallback_calls_v2 :: "addresses \<Rightarrow> string \<Rightarrow> call list" where
  "fallback_calls_v2 A c =
     (let tokensAndOwners = tokensAndOwners_for A c ''USDC'' @ tokensAndOwners_for A c ''USDT'' @
                            tokensAndOwners_for A c ''DAI''
      in if tokensAndOwners = [] then [] else [SumTokens2_tokensAndOwners tokensAndOwners])"

lemma fallbackContractTVL_v2_calls:
  "fallbackContractTVL_v2 A a = a\<lparr>calls := calls a @ fallback_calls_v2 A (chain a)\<rparr>"
  by (simp add: fallbackContractTVL_v2_def fallback_calls_v2_def issue_def Let_def)

lemma fallback_calls_v2_not_direct: "filter is_direct_report (fallback_calls_v2 A c) = []"
  by (simp add: fallback_calls_v2_def Let_def)

section \<open>General facts about the estimators\<close>

text \<open>The spec's normalisation: the raw amount of a record divided by \<open>10^18\<close>.\<close>

definition normalized_amount :: "teleport \<Rightarrow> jsnum" where
  "normalized_amount t = jdiv (parseFloat_or_0 (amount t)) lit_1e18"

definition normalized_transfersIn :: "chain_stat \<Rightarrow> jsnum" where
  "normalized_transfersIn stat = jdiv (parseFloat_or_0 (totalTransfersIn stat)) lit_1e18"

lemma chainTeleportValue_loop_foldl:
  "chainTeleportValue_loop c v ts = foldl jadd v (map normalized_amount (filter (involves c) ts))"
  by (induction ts arbitrary: v) (simp_all add: normalized_amount_def)

lemma totalTeleportValue_loop_foldl:
  "totalTeleportValue_loop v ts = Some r \<Longrightarrow> r = foldl jadd v (map normalized_amount ts)"
  by (induction ts arbitrary: v) (auto simp: normalized_amount_def split: if_splits)

lemma totalNetworkValue_loop_foldl:
  "totalNetworkValue_loop v stats = Some r \<Longrightarrow> r = foldl jadd v (map normalized_transfersIn stats)"
  by (induction stats arbitrary: v) (auto simp: normalized_transfersIn_def split: option.splits)

lemma find_chainStat_skip:
  "stat_chain st = Some None \<Longrightarrow> find_chainStat c (xs @ st # ys) = find_chainStat c (xs @ ys)"
  unfolding find_chainStat_def by (induction xs) (simp_all del: stat_chain.simps)

lemma chainTransferData_loop_skip:
  "stat_chain st = Some None \<Longrightarrow>
     chainTransferData_loop d (xs @ st # ys) = chainTransferData_loop d (xs @ ys)"
  by (induction xs arbitrary: d) (simp_all del: stat_chain.simps split: option.splits)

lemma chainTeleportValue_loop_skip:
  "\<not> involves c t \<Longrightarrow>
     chainTeleportValue_loop c v (ts @ t # us) = chainTeleportValue_loop c v (ts @ us)"
  by (induction ts arbitrary: v) simp_all

lemma jmul_commute: "jmul x y = jmul y x"
  by (cases x; cases y) (simp_all add: mult.commute)

text \<open>The teleports stored under a key of \<open>assetMap\<close>.\<close>

definition group_of :: "(string \<times> teleport list) list \<Rightarrow> string \<Rightarrow> teleport list" where
  "group_of m k = (case map_of m k of None \<Rightarrow> [] | Some ts \<Rightarrow> ts)"

lemma group_of_push:
  "group_of (assetMap_push k' t m) k = group_of m k @ (if k = k' then [t] else [])"
  by (induction m) (auto simp: group_of_def)

lemma group_of_loop:
  "group_of (assetMap_loop m ts) k =
     group_of m k @ filter (\<lambda>t. property_key (asset_of (assetId t)) = k) ts"
  by (induction ts arbitrary: m) (auto simp: group_of_push)

lemma usdValue_v2_group:
  "usdValue_v2 (assetMap_loop [] ts) k =
     jdiv (totalAmount_v2 (filter (\<lambda>t. property_key (asset_of (assetId t)) = k) ts))
          (pow10_decimals_v2 k)"
  using group_of_loop[of "[]" ts k] by (simp add: usdValue_v2_def group_of_def)

text \<open>
  The keys of \<open>assetMap\<close> are the property keys of the assets, each once; none of them names
  a member of \<open>Object.prototype\<close>.
\<close>

lemma property_key_not_inherited:
  "property_key (asset_of f) \<notin> set Object_prototype_names"
  by (auto simp: asset_of_def ASSET_ID_MAP_def Object_prototype_names_def)

lemma assetMap_push_keys:
  "map fst (assetMap_push k t m) = (if k \<in> fst ` set m then map fst m else map fst m @ [k])"
  by (induction k t m rule: assetMap_push.induct) (auto simp: rev_image_eqI)

lemma assetMap_push_key_set: "fst ` set (assetMap_push k t m) = insert k (fst ` set m)"
  by (induction k t m rule: assetMap_push.induct) auto

lemma assetMap_loop_keys:
  "fst ` set (assetMap_loop m ts)
     = fst ` set m \<union> (\<lambda>t. property_key (asset_of (assetId t))) ` set ts"
  by (induction ts arbitrary: m) (simp_all add: assetMap_push_key_set)

lemma assetMap_loop_distinct:
  "distinct (map fst m) \<Longrightarrow> distinct (map fst (assetMap_loop m ts))"
proof (induction ts arbitrary: m)
  case Nil
  then show ?case by simp
next
  case (Cons t ts)
  have "distinct (map fst (assetMap_push k t m))" for k
    using Cons.prems by (simp add: assetMap_push_keys)
  then show ?case by (simp add: Cons.IH)
qed

lemma object_keys_set: "set (object_keys m) = fst ` set m"
  by (auto simp: object_keys_def)

lemma object_keys_distinct: "distinct (map fst m) \<Longrightarrow> distinct (object_keys m)"
  by (auto simp: object_keys_def)

lemma round_half_even_le: "round_half_even m \<le> \<lfloor>m\<rfloor> + 1"
  by (simp add: round_half_even_def Let_def)

lemma rnd_bound:
  assumes x0: "0 \<le> x" and xk: "x \<le> 2 powi k" and k: "- 1021 \<le> k" "k \<le> 1023"
  shows "\<exists>y. rnd x = Fin y \<and> 0 \<le> y \<and> y \<le> 2 powi k"
proof -
  have top: "(2::rat) powi k < 2 powi 1024"
    using k by (intro power_int_strict_increasing) auto
  consider "x = 0" | "x = 2 powi k" | "0 < x" "x < 2 powi k" using x0 xk by fastforce
  then show ?thesis
  proof cases
    case 1
    then show ?thesis by simp
  next
    case 2
    have "rnd x = Fin x"
    proof (rule rnd_exact[where m = 1 and k = k])
      show "x = of_int 1 * 2 powi k" using 2 by simp
      show "\<bar>1::int\<bar> < 2 ^ 53" by simp
      show "- 1074 \<le> k" using k by simp
      show "\<bar>x\<bar> < 2 powi 1024" using 2 top by simp
    qed
    then show ?thesis using x0 xk by simp
  next
    case 3
    define e where "e = max (ilog2 \<bar>x\<bar>) (- 1022)"
    define u :: rat where "u = 2 powi (e - 52)"
    define n where "n = round_half_even (\<bar>x\<bar> / u)"
    have ax: "\<bar>x\<bar> = x" using 3 by simp
    from ilog2_bounds[OF 3(1)] have b: "2 powi ilog2 x \<le> x" "x < 2 powi (ilog2 x + 1)" by auto
    have "(2::rat) powi ilog2 x < 2 powi k" using b(1) 3(2) by linarith
    then have "ilog2 x < k"
      by (metis linorder_not_less one_le_numeral power_int_increasing)
    then have ek: "e + 1 \<le> k" using k by (simp add: e_def ax)
    have upos: "0 < u" by (simp add: u_def)
    have "x < 2 powi (e + 1)"
    proof -
      have "(2::rat) powi (ilog2 x + 1) \<le> 2 powi (e + 1)"
        by (intro power_int_increasing) (auto simp: e_def ax)
      with b(2) show ?thesis by linarith
    qed
    also have "(2::rat) powi (e + 1) = 2 powi 53 * 2 powi (e - 52)"
    proof -
      have "(2::rat) powi (53 + (e - 52)) = 2 powi 53 * 2 powi (e - 52)"
        by (rule power_int_add) simp
      moreover have "53 + (e - 52) = e + 1" by simp
      ultimately show ?thesis by (simp only:)
    qed
    finally have "x / u < 2 powi 53" using upos by (simp add: u_def pos_divide_less_eq)
    then have "x / u < of_int (2 ^ 53)" by simp
    then have "\<lfloor>x / u\<rfloor> < 2 ^ 53" by (simp only: floor_less_iff)
    moreover have "n \<le> \<lfloor>x / u\<rfloor> + 1" unfolding n_def ax by (rule round_half_even_le)
    ultimately have n53: "n \<le> 2 ^ 53" by linarith
    have n0: "0 \<le> n" unfolding n_def ax using 3(1) upos by (intro round_half_even_nonneg) simp
    have "(of_int n :: rat) \<le> of_int (2 ^ 53)" using n53 by (simp only: of_int_le_iff)
    then have "of_int n * u \<le> of_int (2 ^ 53) * u"
      using upos by (intro mult_right_mono) simp_all
    also have "of_int (2 ^ 53) * u = 2 powi 53 * 2 powi (e - 52)" by (simp add: u_def)
    also have "\<dots> = 2 powi (e + 1)"
    proof -
      have "(2::rat) powi (53 + (e - 52)) = 2 powi 53 * 2 powi (e - 52)"
        by (rule power_int_add) simp
      moreover have "53 + (e - 52) = e + 1" by simp
      ultimately show ?thesis by (simp only:)
    qed
    also have "\<dots> \<le> 2 powi k" using ek by (intro power_int_increasing) auto
    finally have yk: "of_int n * u \<le> 2 powi k" .
    have y0: "0 \<le> of_int n * u" using n0 upos by simp
    have "rnd x = (if 2 powi 1024 \<le> of_int n * u then (if 0 < x then PInf else NInf)
                   else Fin (if 0 < x then of_int n * u else - (of_int n * u)))"
      using 3(1) unfolding rnd_def Let_def n_def u_def e_def by (simp only: if_False) simp
    also have "\<dots> = Fin (of_int n * u)" using yk top 3(1) by simp
    finally show ?thesis using y0 yk by simp
  qed
qed

lemma calculateTVLFromAPI_v1_appends:
  "\<exists>cs. \<forall>a. chain a = c \<longrightarrow> calculateTVLFromAPI_v1 A r a = a\<lparr>calls := calls a @ cs\<rparr>"
proof -
  have "\<forall>a. chain a = c \<longrightarrow> calculateTVLFromAPI_v1 A r a =
          a\<lparr>calls := calls a @
            (case getHyperbridgeTVL_v1 r of
               None \<Rightarrow> [SumTokens2 (fallback_owners_v1 c) (fallback_tokens_v1 A c)]
             | Some data \<Rightarrow>
             (case hyperBridgeChainStats data of
               None \<Rightarrow> [SumTokens2 (fallback_owners_v1 c) (fallback_tokens_v1 A c)]
             | Some connection \<Rightarrow>
               (case estimate_v1 c (edges_or_empty connection)
                       (optional_edges_or_empty (tokenGatewayAssetTeleporteds data)) of
                  Direct v \<Rightarrow> map (report_v1 v) (plan_v1 A c)
                | Proportional v \<Rightarrow> map (report_v1 v) (plan_v1 A c)
                | Fallback \<Rightarrow> [SumTokens2 (fallback_owners_v1 c) (fallback_tokens_v1 A c)])))\<rparr>"
    by (auto simp: calculateTVLFromAPI_v1_def addTokensToAPI_v1_plan fallbackContractTVL_v1_calls
        split: option.splits decision.splits)
  then show ?thesis by blast
qed

lemma calculateTVLFromAPI_v2_appends:
  "\<exists>cs. \<forall>a. chain a = c \<longrightarrow> calculateTVLFromAPI_v2 A r a = a\<lparr>calls := calls a @ cs\<rparr>"
proof -
  have "\<forall>a. chain a = c \<longrightarrow> calculateTVLFromAPI_v2 A r a =
          a\<lparr>calls := calls a @
            (case getHyperbridgeTVL_v2 r of
               None \<Rightarrow> fallback_calls_v2 A c
             | Some data \<Rightarrow>
             (case hyperBridgeChainStats data of
               None \<Rightarrow> fallback_calls_v2 A c
             | Some connection \<Rightarrow>
               (case estimate_v2 c (edges_or_empty connection)
                       (optional_edges_or_empty (tokenGatewayAssetTeleporteds data)) of
                  Direct v \<Rightarrow> if jle v (Fin 0) then [] else map (report_v2 v) (plan_v2 A c)
                | Proportional v \<Rightarrow> if jle v (Fin 0) then [] else map (report_v2 v) (plan_v2 A c)
                | Fallback \<Rightarrow> fallback_calls_v2 A c)))\<rparr>"
    by (auto simp: calculateTVLFromAPI_v2_def addTokensToAPI_v2_plan fallbackContractTVL_v2_calls
        split: option.splits decision.splits)
  then show ?thesis by blast
qed

section \<open>Example inputs\<close>

text \<open>
  Concrete inputs for the closed theorems below: an address table with the three
  stablecoins and WETH on Ethereum and only WETH on Soneium, and two execution contexts
  for Ethereum that differ in the calls already recorded.
\<close>

definition example_ADDRESSES :: addresses where
  "example_ADDRESSES =
     [''ethereum'' \<mapsto> [''USDC'' \<mapsto> ''0xa0b86991c6218b36c1d19d4a2e9eb0ce3606eb48'',
                       ''USDT'' \<mapsto> ''0xdac17f958d2ee523a2206206994597c13d831ec7'',
                       ''DAI'' \<mapsto> ''0x6b175474e89094c44da98b954eedeac495271d0f'',
                       ''WETH'' \<mapsto> ''0xc02aaa39b223fe8d0a0e5c4f27ead9083c756cc2''],
      ''soneium'' \<mapsto> [''WETH'' \<mapsto> ''0x4200000000000000000000000000000000000006'']]"

definition ethereum_api :: api where
  "ethereum_api = \<lparr>chain = ''ethereum'', calls = []\<rparr>"

definition ethereum_api_used :: api where
  "ethereum_api_used =
     \<lparr>chain = ''ethereum'', calls = [AddToken ''0xdac17f958d2ee523a2206206994597c13d831ec7'' (Fin 5)]\<rparr>"

definition stat_ethereum_2 :: chain_stat where
  "stat_ethereum_2 = \<lparr>stat_id = Str ''EVM-1'', totalTransfersIn = Str ''2000000000000000000''\<rparr>"

definition stat_unmapped_2 :: chain_stat where
  "stat_unmapped_2 = \<lparr>stat_id = Str ''EVM-999'', totalTransfersIn = Str ''2000000000000000000''\<rparr>"

definition teleport_8 :: teleport where
  "teleport_8 = \<lparr>assetId = Str ''0x2a4161ab'', amount = Str ''8000000000000000000'',
                  sourceChain = Str ''1'', destChain = Str ''10''\<rparr>"

definition teleport_unmapped_1 :: teleport where
  "teleport_unmapped_1 = \<lparr>assetId = Str ''0x2a4161ab'', amount = Str ''1000000000000000000'',
                  sourceChain = Str ''999'', destChain = Str ''998''\<rparr>"

lemmas example_defs = stat_ethereum_2_def stat_unmapped_2_def teleport_8_def teleport_unmapped_1_def

lemma parseFloat_examples:
  "parseFloat ''1000000000000000000'' = Fin 1000000000000000000"
  "parseFloat ''2000000000000000000'' = Fin 2000000000000000000"
  "parseFloat ''8000000000000000000'' = Fin 8000000000000000000"
  by (simp_all add: parseFloat_digits radix_value_def rnd_eval[where e = 59]
      rnd_eval[where e = 60] rnd_eval[where e = 62] round_half_even_def)

lemma rnd_examples:
  "rnd 1000000000000000000 = Fin 1000000000000000000"
  "rnd 2000000000000000000 = Fin 2000000000000000000"
  "rnd 8000000000000000000 = Fin 8000000000000000000"
  by (simp_all add: rnd_eval[where e = 59] rnd_eval[where e = 60] rnd_eval[where e = 62]
      round_half_even_def)

lemma normalized_examples:
  "jdiv (Fin 1000000000000000000) lit_1e18 = Fin 1"
  "jdiv (Fin 2000000000000000000) lit_1e18 = Fin 2"
  "jdiv (Fin 8000000000000000000) lit_1e18 = Fin 8"
  by (simp_all add: lit_1e18_def)

lemma stat_chain_examples:
  "stat_chain stat_ethereum_2 = Some (Some ''ethereum'')"
  "stat_chain stat_unmapped_2 = Some None"
  by (simp_all add: example_defs parseInt_digits radix_value_def CHAIN_ID_MAP_def)

lemma field_chain_examples:
  "field_chain (Str ''1'') = Some ''ethereum''"
  "field_chain (Str ''10'') = Some ''optimism''"
  "field_chain (Str ''999'') = None"
  "field_chain (Str ''998'') = None"
  by (simp_all add: field_chain_def parseInt_digits radix_value_def CHAIN_ID_MAP_def)

lemma property_key_examples [simp]:
  "property_key (asset_of (Str ''0x2a4161ab'')) = ''0x2a4161ab''"
  "property_key (asset_of (Str ''USDC'')) = ''USDC''"
  by (simp_all add: asset_of_def ASSET_ID_MAP_def Object_prototype_names_def)

lemma not_prototype_name: "''0x2a4161ab'' \<notin> set Object_prototype_names"
  by (simp add: Object_prototype_names_def)

lemmas example_eval = example_defs rnd_examples parseFloat_examples normalized_examples field_chain_examples
  parseInt_digits radix_value_def CHAIN_ID_MAP_def Object_prototype_names_def involves_def

lemma totalNetworkValue_example_1: "totalNetworkValue_loop (Fin 0) [stat_ethereum_2] = Some (Fin 2)"
  by (simp add: example_eval)

lemma totalNetworkValue_example_2: "totalNetworkValue_loop (Fin 0) [stat_ethereum_2, stat_unmapped_2] = Some (Fin 4)"
  by (simp add: example_eval)

lemma totalTeleportValue_example_v1: "totalTeleportValue_loop (Fin 0) [teleport_8] = Some (Fin 8)"
  by (simp add: example_eval)

lemma chainTeleportValue_example: "chainTeleportValue_loop ''ethereum'' (Fin 0) [teleport_8] = Fin 8"
  by (simp add: example_eval)

lemma estimate_v1_example: "estimate_v1 ''ethereum'' [stat_ethereum_2, stat_unmapped_2] [teleport_8] = Proportional (Fin 4)"
  unfolding estimate_v1_def totalNetworkValue_example_2 totalTeleportValue_example_v1 chainTeleportValue_example
  by (simp add: find_chainStat_def example_eval chainProportionalValue_v1_def chainProportion_v1_def
      rnd_eval[where e = "-1"] round_half_even_def)

lemma totalTeleportValue_example_v2: "totalTeleportValue_v2 [teleport_8] = Fin 8"
  by (simp add: totalTeleportValue_v2_def object_keys_def is_array_index_def usdValue_v2_def
      totalAmount_v2_def pow10_decimals_v2_def example_eval)

lemma chainTransferData_example: "chainTransferData_loop [] [stat_ethereum_2, stat_unmapped_2] = Some [(''ethereum'', Fin 2)]"
  by (simp add: example_eval)

lemma estimate_v2_example: "estimate_v2 ''ethereum'' [stat_ethereum_2, stat_unmapped_2] [teleport_8] = Proportional (Fin 8)"
  unfolding estimate_v2_def totalTeleportValue_example_v2 chainTransferData_example
  by (simp add: totalNetworkTransfers_v2_def chainTransfers_v2_def)

definition stat_optimism_2 :: chain_stat where
  "stat_optimism_2 = \<lparr>stat_id = Str ''EVM-10'', totalTransfersIn = Str ''2000000000000000000''\<rparr>"

definition teleport_50 :: teleport where
  "teleport_50 = \<lparr>assetId = Str ''0x2a4161ab'', amount = Str ''50000000000000000000'',
                   sourceChain = Str ''1'', destChain = Str ''10''\<rparr>"

definition teleport_1000 :: teleport where
  "teleport_1000 = \<lparr>assetId = Str ''0x2a4161ab'', amount = Str ''1000000000000000000000'',
                     sourceChain = Str ''1'', destChain = Str ''10''\<rparr>"

definition teleport_usdc_1 :: teleport where
  "teleport_usdc_1 = \<lparr>assetId = Str ''USDC'', amount = Str ''1000000'',
                       sourceChain = Str ''1'', destChain = Str ''10''\<rparr>"

definition teleport_01 :: teleport where
  "teleport_01 = \<lparr>assetId = Str ''0x2a4161ab'', amount = Str ''100000000000000000'',
                   sourceChain = Str ''1'', destChain = Str ''10''\<rparr>"

definition teleport_02 :: teleport where
  "teleport_02 = \<lparr>assetId = Str ''0x2a4161ab'', amount = Str ''200000000000000000'',
                   sourceChain = Str ''1'', destChain = Str ''10''\<rparr>"

definition teleport_03 :: teleport where
  "teleport_03 = \<lparr>assetId = Str ''0x2a4161ab'', amount = Str ''300000000000000000'',
                   sourceChain = Str ''1'', destChain = Str ''10''\<rparr>"

definition teleport_proto_01 :: teleport where
  "teleport_proto_01 = \<lparr>assetId = Str ''__proto__'', amount = Str ''100000000000000000'',
                         sourceChain = Str ''1'', destChain = Str ''10''\<rparr>"

definition teleport_object_02 :: teleport where
  "teleport_object_02 = \<lparr>assetId = Str ''[object Object]'', amount = Str ''200000000000000000'',
                          sourceChain = Str ''1'', destChain = Str ''10''\<rparr>"

lemmas more_example_defs = stat_optimism_2_def teleport_50_def teleport_1000_def
  teleport_usdc_1_def teleport_01_def teleport_02_def teleport_03_def

lemma parseFloat_more_examples:
  "parseFloat ''50000000000000000000'' = Fin 50000000000000000000"
  "parseFloat ''1000000000000000000000'' = Fin 1000000000000000000000"
  "parseFloat ''1000000'' = Fin 1000000"
  "parseFloat ''100000000000000000'' = Fin 100000000000000000"
  "parseFloat ''200000000000000000'' = Fin 200000000000000000"
  "parseFloat ''300000000000000000'' = Fin 300000000000000000"
  by (simp_all add: parseFloat_digits radix_value_def rnd_eval[where e = 65]
      rnd_eval[where e = 69] rnd_eval[where e = 56] rnd_eval[where e = 57]
      rnd_eval[where e = 58] round_half_even_def)

lemma normalized_more_examples:
  "jdiv (Fin 50000000000000000000) lit_1e18 = Fin 50"
  "jdiv (Fin 1000000000000000000000) lit_1e18 = Fin 1000"
  "jdiv (Fin 1000000) lit_1e18 = Fin (4951760157141521 / 4951760157141521099596496896)"
  "jdiv (Fin 1000000) lit_1e6 = Fin 1"
  "jdiv (Fin 100000000000000000) lit_1e18 = Fin (3602879701896397 / 36028797018963968)"
  "jdiv (Fin 200000000000000000) lit_1e18 = Fin (3602879701896397 / 18014398509481984)"
  "jdiv (Fin 300000000000000000) lit_1e18 = Fin (5404319552844595 / 18014398509481984)"
  by (simp_all add: lit_1e18_def lit_1e6_def rnd_eval[where e = "-40"] rnd_eval[where e = "-4"]
      rnd_eval[where e = "-3"] rnd_eval[where e = "-2"] round_half_even_def)

lemmas tenths_eval = rnd_eval[where e = "-4"] rnd_eval[where e = "-2"] rnd_eval[where e = "-1"]
  round_half_even_def

lemma involves_examples:
  "involves ''ethereum'' teleport_01" "involves ''ethereum'' teleport_02"
  "involves ''ethereum'' teleport_03" "involves ''ethereum'' teleport_8"
  "involves ''ethereum'' teleport_50" "involves ''ethereum'' teleport_1000"
  "\<not> involves ''ethereum'' teleport_unmapped_1"
  by (simp_all add: involves_def example_defs more_example_defs field_chain_examples)

lemma normalized_amount_examples:
  "normalized_amount teleport_01 = Fin (3602879701896397 / 36028797018963968)"
  "normalized_amount teleport_02 = Fin (3602879701896397 / 18014398509481984)"
  "normalized_amount teleport_03 = Fin (5404319552844595 / 18014398509481984)"
  "normalized_amount teleport_50 = Fin 50"
  "normalized_amount teleport_1000 = Fin 1000"
  "normalized_amount teleport_8 = Fin 8"
  "normalized_amount teleport_unmapped_1 = Fin 1"
  "normalized_amount teleport_usdc_1 = Fin (4951760157141521 / 4951760157141521099596496896)"
  by (simp_all add: normalized_amount_def example_defs more_example_defs parseFloat_examples
      parseFloat_more_examples normalized_examples normalized_more_examples)

lemma estimate_v1_example_1:
  "estimate_v1 ''ethereum'' [stat_ethereum_2] [teleport_8] = Proportional (Fin 8)"
  unfolding estimate_v1_def totalNetworkValue_example_1 totalTeleportValue_example_v1
    chainTeleportValue_example
  by (simp add: find_chainStat_def example_eval chainProportionalValue_v1_def chainProportion_v1_def)

lemma totalTeleportValue_unmapped_v1:
  "totalTeleportValue_loop (Fin 0) [teleport_unmapped_1] = Some (Fin 1)"
  by (simp add: example_eval)

lemma totalTeleportValue_unmapped_v2:
  "totalTeleportValue_v2 [teleport_unmapped_1] = Fin 1"
  by (simp add: totalTeleportValue_v2_def object_keys_def is_array_index_def usdValue_v2_def
      totalAmount_v2_def pow10_decimals_v2_def example_eval)

text \<open>
  Whether the proportional strategy of the first adapter yields a usable value: both loops
  ran through, a stat record of the requested chain exists, the total teleport value is
  positive and the proportional value exceeds 1.
\<close>

definition proportional_usable_v1 :: "string \<Rightarrow> chain_stat list \<Rightarrow> teleport list \<Rightarrow> bool" where
  "proportional_usable_v1 c chainStats teleports =
     (case totalNetworkValue_loop (Fin 0) chainStats of
        None \<Rightarrow> False
      | Some totalNetworkValue \<Rightarrow>
     (case totalTeleportValue_loop (Fin 0) teleports of
        None \<Rightarrow> False
      | Some totalTeleportValue \<Rightarrow>
     (case find_chainStat c chainStats of
        None \<Rightarrow> False
      | Some chainStat \<Rightarrow>
          jgt totalTeleportValue (Fin 0) \<and>
          jgt (chainProportionalValue_v1 totalNetworkValue totalTeleportValue chainStat) (Fin 1))))"

lemma estimate_v2_not_direct: "estimate_v2 c chainStats teleports \<noteq> Direct v"
  by (simp add: estimate_v2_def Let_def split: option.splits)

lemma estimate_v2_no_stats: "estimate_v2 c [] teleports = Fallback"
  by (simp add: estimate_v2_def totalNetworkTransfers_v2_def)

lemma chainTeleportValue_examples:
  "chainTeleportValue_loop ''ethereum'' (Fin 0) [teleport_50] = Fin 50"
  "chainTeleportValue_loop ''ethereum'' (Fin 0) [teleport_1000] = Fin 1000"
  by (simp_all add: chainTeleportValue_loop_foldl involves_examples normalized_amount_examples)

lemma estimate_v2_example_halves:
  "estimate_v2 ''ethereum'' [stat_ethereum_2, stat_optimism_2] [teleport_8] = Proportional (Fin 4)"
proof -
  have "chainTransferData_loop [] [stat_ethereum_2, stat_optimism_2]
          = Some [(''ethereum'', Fin 2), (''optimism'', Fin 2)]"
    by (simp add: example_eval more_example_defs)
  then show ?thesis
    unfolding estimate_v2_def totalTeleportValue_example_v2
    by (simp add: totalNetworkTransfers_v2_def chainTransfers_v2_def
        rnd_eval[where e = "-1"] round_half_even_def)
qed

lemma totalTeleportValue_loop_eq:
  "totalTeleportValue_loop v ts =
     (if (\<exists>t\<in>set ts. field_string (assetId t) \<in> set Object_prototype_names) then None
      else Some (foldl jadd v (map normalized_amount ts)))"
  by (induction ts arbitrary: v) (simp_all add: normalized_amount_def)

lemma totalTeleportValue_v2_groups:
  "totalTeleportValue_v2 ts =
     foldl jadd (Fin 0)
       (map (\<lambda>asset. jdiv (totalAmount_v2 (filter (\<lambda>t. property_key (asset_of (assetId t)) = asset) ts))
                           (pow10_decimals_v2 asset))
            (object_keys (assetMap_loop [] ts)))"
proof -
  have "foldl (\<lambda>total asset. jadd total (f asset)) v ks = foldl jadd v (map f ks)" for f v and ks :: "string list"
    by (induction ks arbitrary: v) simp_all
  moreover have "usdValue_v2 (assetMap_loop [] ts) =
      (\<lambda>asset. jdiv (totalAmount_v2 (filter (\<lambda>t. property_key (asset_of (assetId t)) = asset) ts))
                      (pow10_decimals_v2 asset))"
    by (rule ext) (rule usdValue_v2_group)
  ultimately show ?thesis
    by (simp add: totalTeleportValue_v2_def Let_def)
qed

text \<open>
  Asset ids that the prototype chain of \<open>ASSET_ID_MAP\<close> answers get the key of what it finds.
  The ids \<open>__proto__\<close> and \<open>[object Object]\<close> share one key: their amounts 0.1 and 0.2 (times
  \<open>10^18\<close>) are added before the division, which gives 0.3, where two groups would give
  \<open>0.1 + 0.2 = 0.30000000000000004\<close>.
\<close>

lemma property_key_inherited_examples:
  "property_key (asset_of (Str ''__proto__'')) = ''[object Object]''"
  "property_key (asset_of (Str ''[object Object]'')) = ''[object Object]''"
  "property_key (asset_of (Str ''constructor'')) = ''function Object() { [native code] }''"
  "property_key (asset_of (Str ''toString'')) = ''function toString() { [native code] }''"
  "property_key (asset_of Null) = ''null''"
  "property_key (asset_of (Str ''null'')) = ''null''"
  by (simp_all add: asset_of_def ASSET_ID_MAP_def Object_prototype_names_def)

lemma object_keys_shared_key:
  "object_keys (assetMap_loop [] [teleport_proto_01, teleport_object_02]) = [''[object Object]'']"
  by (simp add: teleport_proto_01_def teleport_object_02_def property_key_inherited_examples
      object_keys_def is_array_index_def is_digit_def)

lemma totalTeleportValue_v2_shared_key:
  "totalTeleportValue_v2 [teleport_proto_01, teleport_object_02]
     = Fin (5404319552844595 / 18014398509481984)"
  unfolding totalTeleportValue_v2_groups object_keys_shared_key
  by (simp add: teleport_proto_01_def teleport_object_02_def property_key_inherited_examples
      totalAmount_v2_def pow10_decimals_v2_def parseFloat_more_examples
      rnd_eval[where e = 56] rnd_eval[where e = 58] rnd_eval[where e = "-2"]
      round_half_even_def normalized_more_examples)

lemma totalTeleportValue_usdc_v2: "totalTeleportValue_v2 [teleport_usdc_1] = Fin 1"
  by (simp add: totalTeleportValue_v2_def object_keys_def is_array_index_def usdValue_v2_def
      totalAmount_v2_def pow10_decimals_v2_def more_example_defs parseFloat_more_examples
      normalized_more_examples is_digit_def)

lemma totalTeleportValue_usdc_v1:
  "totalTeleportValue_loop (Fin 0) [teleport_usdc_1]
     = Some (Fin (4951760157141521 / 4951760157141521099596496896))"
proof -
  have np: "\<not> (\<exists>t\<in>set [teleport_usdc_1]. field_string (assetId t) \<in> set Object_prototype_names)"
    by (simp add: teleport_usdc_1_def Object_prototype_names_def)
  show ?thesis
    unfolding totalTeleportValue_loop_eq if_not_P[OF np]
    by (simp add: normalized_amount_examples rnd_eval[where e = "-40"] round_half_even_def)
qed

lemma map_of_object_set: "map_of (object_set k v m) k' = (if k' = k then Some v else map_of m k')"
  by (induction m) auto

text \<open>
  After the loop of the second adapter, \<open>chainTransferData[c]\<close> holds the normalised
  transfers of the last stat record whose chain ID maps to \<open>c\<close>.
\<close>

lemma chainTransferData_loop_lookup:
  "chainTransferData_loop d0 stats = Some d \<Longrightarrow>
     map_of d c = (case find (\<lambda>st. stat_chain st = Some (Some c)) (rev stats) of
                     None \<Rightarrow> map_of d0 c
                   | Some st \<Rightarrow> Some (normalized_transfersIn st))"
proof (induction stats arbitrary: d0)
  case Nil
  then show ?case by simp
next
  case (Cons s stats)
  have f: "find P (xs @ [y]) = (case find P xs of None \<Rightarrow> (if P y then Some y else None)
                                | Some x \<Rightarrow> Some x)" for P and xs :: "chain_stat list" and y
    by (induction xs) auto
  show ?case
  proof (cases "stat_chain s")
    case None
    with Cons.prems show ?thesis by (simp del: stat_chain.simps)
  next
    case (Some n)
    show ?thesis
    proof (cases n)
      case None
      with Some Cons.prems have "chainTransferData_loop d0 stats = Some d"
        by (simp del: stat_chain.simps)
      from Cons.IH[OF this] Some None show ?thesis
        by (simp add: f del: stat_chain.simps split: option.splits)
    next
      case (Some k)
      with \<open>stat_chain s = Some n\<close> Cons.prems
      have "chainTransferData_loop (object_set k (normalized_transfersIn s) d0) stats = Some d"
        by (simp add: normalized_transfersIn_def del: stat_chain.simps)
      from Cons.IH[OF this] \<open>stat_chain s = Some n\<close> Some show ?thesis
        by (auto simp: f map_of_object_set simp del: stat_chain.simps split: option.splits)
    qed
  qed
qed

lemma jdiv_by_zero_not_zero: "jdiv v (Fin 0) \<noteq> Fin 0"
  by (cases v) simp_all

lemma estimate_v1_direct_example:
  "estimate_v1 ''ethereum'' [] [teleport_1000] = Direct (Fin 1000)"
proof -
  have "totalTeleportValue_loop (Fin 0) [teleport_1000] = Some (Fin 1000)"
    by (simp add: more_example_defs Object_prototype_names_def parseFloat_more_examples
        normalized_more_examples)
  then show ?thesis
    unfolding estimate_v1_def chainTeleportValue_examples by simp
qed

lemma estimate_v1_proportional:
  assumes "estimate_v1 c chainStats teleports = Proportional x"
  shows "\<exists>V T st. totalNetworkValue_loop (Fin 0) chainStats = Some V \<and>
           V = foldl jadd (Fin 0) (map normalized_transfersIn chainStats) \<and>
           totalTeleportValue_loop (Fin 0) teleports = Some T \<and>
           find_chainStat c chainStats = Some st \<and> jgt V (Fin 0) \<and>
           x = jmul (jdiv (normalized_transfersIn st) V) T"
proof -
  from assms obtain V where V: "totalNetworkValue_loop (Fin 0) chainStats = Some V"
    by (auto simp: estimate_v1_def split: option.splits)
  from assms V obtain T where T: "totalTeleportValue_loop (Fin 0) teleports = Some T"
    by (auto simp: estimate_v1_def split: option.splits)
  from assms V T obtain st where st: "find_chainStat c chainStats = Some st"
    by (auto simp: estimate_v1_def Let_def split: option.splits if_splits)
  from assms V T st
  have x: "x = chainProportionalValue_v1 V T st" and gt: "jgt (chainProportionalValue_v1 V T st) (Fin 1)"
    by (auto simp: estimate_v1_def Let_def split: if_splits)
  have pos: "jgt V (Fin 0)"
  proof (rule ccontr)
    assume "\<not> jgt V (Fin 0)"
    then have "chainProportionalValue_v1 V T st = jmul T (Fin 0)"
      by (simp add: chainProportionalValue_v1_def chainProportion_v1_def)
    with gt show False by (cases T) (simp_all split: if_splits)
  qed
  then have "x = jmul (jdiv (normalized_transfersIn st) V) T"
    by (simp add: x chainProportionalValue_v1_def chainProportion_v1_def normalized_transfersIn_def
        jmul_commute)
  with V T st pos totalNetworkValue_loop_foldl[OF V] show ?thesis by blast
qed

lemma estimate_v1_zero_volume:
  assumes "totalNetworkValue_loop (Fin 0) chainStats = Some V" "\<not> jgt V (Fin 0)"
    "\<not> jgt (chainTeleportValue_loop c (Fin 0) teleports) (Fin 100)"
  shows "estimate_v1 c chainStats teleports = Fallback"
proof (cases "estimate_v1 c chainStats teleports")
  case (Direct y)
  with assms show ?thesis
    by (auto simp: estimate_v1_def Let_def split: option.splits if_splits)
next
  case (Proportional y)
  from estimate_v1_proportional[OF this] assms show ?thesis by auto
next
  case Fallback
  then show ?thesis .
qed

lemma estimate_v2_proportional:
  assumes "estimate_v2 c chainStats teleports = Proportional x"
  shows "\<exists>d st. chainTransferData_loop [] chainStats = Some d \<and>
           find (\<lambda>st. stat_chain st = Some (Some c)) (rev chainStats) = Some st \<and>
           jgt (totalNetworkTransfers_v2 d) (Fin 0) \<and>
           x = jmul (jdiv (normalized_transfersIn st) (totalNetworkTransfers_v2 d))
                    (totalTeleportValue_v2 teleports)"
proof -
  from assms obtain d where d: "chainTransferData_loop [] chainStats = Some d"
    by (auto simp: estimate_v2_def Let_def split: option.splits)
  from assms d have gt: "jgt (totalNetworkTransfers_v2 d) (Fin 0)" "jgt (chainTransfers_v2 d c) (Fin 0)"
    and x: "x = jmul (totalTeleportValue_v2 teleports)
                  (jdiv (chainTransfers_v2 d c) (totalNetworkTransfers_v2 d))"
    by (auto simp: estimate_v2_def Let_def split: if_splits)
  from gt(2) obtain v where v: "map_of d c = Some v" "chainTransfers_v2 d c = v"
    by (auto simp: chainTransfers_v2_def split: option.splits if_splits)
  from chainTransferData_loop_lookup[OF d, of c] v(1)
  obtain st where st: "find (\<lambda>st. stat_chain st = Some (Some c)) (rev chainStats) = Some st"
      "v = normalized_transfersIn st"
    by (auto split: option.splits)
  from x have "x = jmul (jdiv (normalized_transfersIn st) (totalNetworkTransfers_v2 d))
                    (totalTeleportValue_v2 teleports)"
    by (simp add: v(2) st(2) jmul_commute)
  with d st(1) gt(1) show ?thesis by blast
qed

definition soneium_api :: api where
  "soneium_api = \<lparr>chain = ''soneium'', calls = []\<rparr>"

lemma lit_values:
  "lit_0_7 = Fin (3152519739159347 / 4503599627370496)"
  "lit_0_2 = Fin (3602879701896397 / 18014398509481984)"
  "lit_0_1 = Fin (3602879701896397 / 36028797018963968)"
  by (simp_all add: lit_0_7_def lit_0_2_def lit_0_1_def rnd_eval[where e = "-1"]
      rnd_eval[where e = "-3"] rnd_eval[where e = "-4"] round_half_even_def)

lemma example_addresses:
  "address_of example_ADDRESSES ''ethereum'' ''USDC'' = Some ''0xa0b86991c6218b36c1d19d4a2e9eb0ce3606eb48''"
  "address_of example_ADDRESSES ''ethereum'' ''USDT'' = Some ''0xdac17f958d2ee523a2206206994597c13d831ec7''"
  "address_of example_ADDRESSES ''ethereum'' ''DAI'' = Some ''0x6b175474e89094c44da98b954eedeac495271d0f''"
  "address_of example_ADDRESSES ''soneium'' ''USDC'' = None"
  "address_of example_ADDRESSES ''soneium'' ''USDT'' = None"
  "address_of example_ADDRESSES ''soneium'' ''DAI'' = None"
  "address_of example_ADDRESSES ''soneium'' ''WETH'' = Some ''0x4200000000000000000000000000000000000006''"
  by (simp_all add: address_of_def example_ADDRESSES_def)

lemma example_plans:
  "plan_v1 example_ADDRESSES ''ethereum'' =
     [Share ''0xa0b86991c6218b36c1d19d4a2e9eb0ce3606eb48'' lit_0_7 lit_1e6,
      Share ''0xdac17f958d2ee523a2206206994597c13d831ec7'' lit_0_2 lit_1e6,
      Share ''0x6b175474e89094c44da98b954eedeac495271d0f'' lit_0_1 lit_1e18]"
  "plan_v1 example_ADDRESSES ''soneium'' =
     [Priced ''0x4200000000000000000000000000000000000006'' (Fin 2500) lit_1e18]"
  "plan_v2 example_ADDRESSES ''ethereum'' =
     [Whole ''0xa0b86991c6218b36c1d19d4a2e9eb0ce3606eb48'' lit_1e6]"
  by (simp_all add: plan_v1_def plan_v2_def stablecoin_plan_v1_def example_addresses)

text \<open>Products of bounded non-negative Numbers are finite and non-negative.\<close>

lemma jmul_bound:
  assumes "0 \<le> x" "x \<le> 2 powi i" "0 \<le> y" "y \<le> 2 powi j" "- 1021 \<le> i + j" "i + j \<le> 1023"
  shows "\<exists>p. jmul (Fin x) (Fin y) = Fin p \<and> 0 \<le> p \<and> p \<le> 2 powi (i + j)"
proof -
  have "x * y \<le> 2 powi i * 2 powi j" using assms(1-4) by (intro mult_mono) auto
  also have "\<dots> = 2 powi (i + j)" by (rule power_int_add[symmetric]) simp
  finally have "x * y \<le> 2 powi (i + j)" .
  moreover have "0 \<le> x * y" using assms(1,3) by simp
  ultimately show ?thesis using rnd_bound[of "x * y" "i + j"] assms(5,6) by simp
qed

lemma scale_bounds:
  "(10::rat) ^ 6 \<le> 2 powi 20" "(10::rat) ^ 18 \<le> 2 powi 60"
  by simp_all

lemma share_amount_finite:
  assumes "0 \<le> q" "q \<le> 2 ^ 900" "0 \<le> f" "f \<le> 1" "s = 10 ^ 6 \<or> s = 10 ^ 18"
  shows "\<exists>p. jmul (jmul (Fin q) (Fin f)) (Fin s) = Fin p \<and> 0 \<le> p"
proof -
  have q: "q \<le> 2 powi 900" using assms(2) by simp
  have f: "f \<le> 2 powi 0" using assms(4) by simp
  from jmul_bound[OF assms(1) q assms(3) f] obtain y
    where y: "jmul (Fin q) (Fin f) = Fin y" "0 \<le> y" "y \<le> 2 powi 900" by auto
  have s: "0 \<le> s" "s \<le> 2 powi 60" using assms(5) by auto
  from jmul_bound[OF y(2,3) s] obtain p where "jmul (Fin y) (Fin s) = Fin p" "0 \<le> p" by auto
  with y(1) show ?thesis by simp
qed

lemma whole_amount_finite:
  assumes "0 \<le> q" "q \<le> 2 ^ 900" "s = 10 ^ 6 \<or> s = 10 ^ 18"
  shows "\<exists>p. jmul (Fin q) (Fin s) = Fin p \<and> 0 \<le> p"
proof -
  have q: "q \<le> 2 powi 900" using assms(2) by simp
  have s: "0 \<le> s" "s \<le> 2 powi 60" using assms(3) by auto
  from jmul_bound[OF assms(1) q s] show ?thesis by auto
qed

lemma priced_amount_finite:
  assumes "0 \<le> q" "q \<le> 2 ^ 900"
  shows "\<exists>p. jmul (jdiv (Fin q) (Fin 2500)) (Fin (10 ^ 18)) = Fin p \<and> 0 \<le> p"
proof -
  have "q / 2500 \<le> q" using assms(1) by simp
  with assms(2) have "q / 2500 \<le> 2 powi 900" by simp
  moreover have "0 \<le> q / 2500" using assms(1) by simp
  ultimately obtain y where y: "rnd (q / 2500) = Fin y" "0 \<le> y" "y \<le> 2 powi 900"
    using rnd_bound[of "q / 2500" 900] by auto
  have s: "(0::rat) \<le> 10 ^ 18" "(10::rat) ^ 18 \<le> 2 powi 60" by simp_all
  from jmul_bound[OF y(2,3) s] obtain p where "jmul (Fin y) (Fin (10 ^ 18)) = Fin p" "0 \<le> p"
    by auto
  with y(1) show ?thesis by simp
qed

lemma floor_facts: "0 \<le> p \<Longrightarrow> 0 \<le> \<lfloor>p\<rfloor> \<and> of_int \<lfloor>p\<rfloor> \<le> p \<and> p < of_int \<lfloor>p\<rfloor> + 1" for p :: rat
  using floor_correct[of p] by simp

lemma plan_v1_entries:
  assumes "al \<in> set (plan_v1 A c)"
  shows "\<exists>token. al = Share token lit_0_7 lit_1e6 \<or> al = Share token lit_0_2 lit_1e6 \<or>
                 al = Share token lit_0_1 lit_1e18 \<or> al = Priced token (Fin 2500) lit_1e18"
  using assms
  by (auto simp: plan_v1_def stablecoin_plan_v1_def split: option.splits if_splits)

lemma plan_v2_entries:
  assumes "al \<in> set (plan_v2 A c)"
  shows "\<exists>token. al = Whole token lit_1e6 \<or> al = Whole token lit_1e18"
  using assms by (auto simp: plan_v2_def split: option.splits)

lemma raw_amount_v1_finite:
  assumes "0 \<le> q" "q \<le> 2 ^ 900" "al \<in> set (plan_v1 A c)"
  shows "\<exists>p. raw_amount (Fin q) al = Fin p \<and> 0 \<le> p"
proof -
  from plan_v1_entries[OF assms(3)] obtain token where
    "al = Share token lit_0_7 lit_1e6 \<or> al = Share token lit_0_2 lit_1e6 \<or>
     al = Share token lit_0_1 lit_1e18 \<or> al = Priced token (Fin 2500) lit_1e18" by blast
  then show ?thesis
    using share_amount_finite[OF assms(1,2), of "3152519739159347 / 4503599627370496" "10 ^ 6"]
      share_amount_finite[OF assms(1,2), of "3602879701896397 / 18014398509481984" "10 ^ 6"]
      share_amount_finite[OF assms(1,2), of "3602879701896397 / 36028797018963968" "10 ^ 18"]
      priced_amount_finite[OF assms(1,2)]
    by (auto simp: lit_values lit_1e6_def lit_1e18_def)
qed

lemma raw_amount_v2_finite:
  assumes "0 \<le> q" "q \<le> 2 ^ 900" "al \<in> set (plan_v2 A c)"
  shows "\<exists>p. raw_amount (Fin q) al = Fin p \<and> 0 \<le> p"
proof -
  from plan_v2_entries[OF assms(3)] obtain token where
    "al = Whole token lit_1e6 \<or> al = Whole token lit_1e18" by blast
  then show ?thesis
    using whole_amount_finite[OF assms(1,2), of "10 ^ 6"]
      whole_amount_finite[OF assms(1,2), of "10 ^ 18"]
    by (auto simp: lit_1e6_def lit_1e18_def)
qed

lemma thousand_at_70_percent:
  "jfloor (jmul (jmul (Fin 1000) lit_0_7) lit_1e6) = Fin 700000000"
  by (simp add: lit_values lit_1e6_def rnd_eval[where e = 9] round_half_even_def)

lemma reports_for_1000:
  "map (report_v1 (Fin 1000)) (plan_v1 example_ADDRESSES ''ethereum'') =
     [Add ''0xa0b86991c6218b36c1d19d4a2e9eb0ce3606eb48'' (ToString (Fin 700000000)),
      Add ''0xdac17f958d2ee523a2206206994597c13d831ec7'' (ToString (Fin 200000000)),
      Add ''0x6b175474e89094c44da98b954eedeac495271d0f'' (ToString (Fin 100000000000000000000))]"
  unfolding example_plans
  by (simp add: report_v1_def lit_values lit_1e6_def lit_1e18_def rnd_eval[where e = 9]
      rnd_eval[where e = 7] rnd_eval[where e = 6] rnd_eval[where e = 66] round_half_even_def)

lemma reports_for_4:
  "map (report_v1 (Fin 4)) (plan_v1 example_ADDRESSES ''ethereum'') =
     [Add ''0xa0b86991c6218b36c1d19d4a2e9eb0ce3606eb48'' (ToString (Fin 2800000)),
      Add ''0xdac17f958d2ee523a2206206994597c13d831ec7'' (ToString (Fin 800000)),
      Add ''0x6b175474e89094c44da98b954eedeac495271d0f'' (ToString (Fin 400000000000000000))]"
  unfolding example_plans
  by (simp add: report_v1_def lit_values lit_1e6_def lit_1e18_def rnd_eval[where e = 1]
      rnd_eval[where e = 21] rnd_eval[where e = "-1"] rnd_eval[where e = 19]
      rnd_eval[where e = "-2"] rnd_eval[where e = 58] round_half_even_def)

lemma reports_for_8_v2:
  "map (report_v2 (Fin 8)) (plan_v2 example_ADDRESSES ''ethereum'') =
     [AddToken ''0xa0b86991c6218b36c1d19d4a2e9eb0ce3606eb48'' (Fin 8000000)]"
  unfolding example_plans by (simp add: report_v2_def lit_1e6_def)

lemma reports_for_2500_weth:
  "map (report_v1 (Fin 2500)) (plan_v1 example_ADDRESSES ''soneium'') =
     [Add ''0x4200000000000000000000000000000000000006'' (ToString (Fin 1000000000000000000))]"
  unfolding example_plans by (simp add: report_v1_def lit_1e18_def rnd_examples)

lemma dai_amount_overflows:
  "raw_amount (Fin (2 ^ 1000)) (Share ''0x6b175474e89094c44da98b954eedeac495271d0f'' lit_0_1 lit_1e18) = PInf"
  by (simp add: lit_values lit_1e18_def rnd_eval[where e = 996] rnd_eval[where e = 1056]
      round_half_even_def)

text \<open>
  The share of the estimate that an entry of a plan allocates: the fraction of a \<open>Share\<close>,
  100% for an entry that takes the whole estimate.
\<close>

fun share :: "allocation \<Rightarrow> rat" where
  "share (Share token (Fin fraction) scale) = fraction"
| "share (Share token _ scale) = 0"
| "share (Whole token scale) = 1"
| "share (Priced token price scale) = 1"

definition total_share :: "allocation list \<Rightarrow> rat" where
  "total_share plan = sum_list (map share plan)"

lemma total_share_plan_v1: "total_share (plan_v1 A c) \<le> 1"
  by (simp add: total_share_def plan_v1_def stablecoin_plan_v1_def lit_values
      split: option.splits)

text \<open>An answer of the indexer with two stat records and one teleport, as either fetcher returns it.\<close>

definition example_data :: gql_data where
  "example_data = \<lparr>hyperBridgeChainStats = Some (Some [stat_ethereum_2, stat_unmapped_2]),
                    tokenGatewayAssetTeleporteds = Some (Some [teleport_8])\<rparr>"

section \<open>Claims\<close>

text \<open>
  C1, as stated, fails for two of the sums it names.  In the first adapter the loop over the
  chain stats adds every record to \<open>totalNetworkValue\<close>, the denominator of the proportion:
  a record for the unmapped chain ID 999 raises it from 2 to 4 and halves the estimate for
  Ethereum.  In both adapters the total teleport value adds every event: one between the
  unmapped chains 999 and 998 raises it from 0 to 1.
\<close>

theorem C1_counterexample:
  "stat_chain stat_unmapped_2 = Some None \<and>
   totalNetworkValue_loop (Fin 0) [stat_ethereum_2] = Some (Fin 2) \<and>
   totalNetworkValue_loop (Fin 0) [stat_ethereum_2, stat_unmapped_2] = Some (Fin 4) \<and>
   estimate_v1 ''ethereum'' [stat_ethereum_2] [teleport_8] = Proportional (Fin 8) \<and>
   estimate_v1 ''ethereum'' [stat_ethereum_2, stat_unmapped_2] [teleport_8] = Proportional (Fin 4) \<and>
   field_chain (sourceChain teleport_unmapped_1) = None \<and>
   field_chain (destChain teleport_unmapped_1) = None \<and>
   totalTeleportValue_loop (Fin 0) [] = Some (Fin 0) \<and>
   totalTeleportValue_loop (Fin 0) [teleport_unmapped_1] = Some (Fin 1) \<and>
   totalTeleportValue_v2 [] = Fin 0 \<and>
   totalTeleportValue_v2 [teleport_unmapped_1] = Fin 1"
proof -
  have "field_chain (sourceChain teleport_unmapped_1) = None"
    "field_chain (destChain teleport_unmapped_1) = None"
    by (simp_all add: example_defs field_chain_examples)
  moreover have "totalTeleportValue_v2 [] = Fin 0"
    by (simp add: totalTeleportValue_v2_def object_keys_def)
  moreover have "totalTeleportValue_loop (Fin 0) [] = Some (Fin 0)" by simp
  ultimately show ?thesis
    using stat_chain_examples(2) totalNetworkValue_example_1 totalNetworkValue_example_2
      estimate_v1_example_1 estimate_v1_example totalTeleportValue_unmapped_v1
      totalTeleportValue_unmapped_v2
    by (simp only: simp_thms)
qed

text \<open>
  C1 (amended).  Let a chain-stat record have an \<open>id\<close> whose chain ID is not in the static
  table, and let a teleport event have a source and a destination chain ID that are both
  not in the table.  Then, wherever they stand in their lists: the stat record is never the
  one the first adapter takes the proportional numerator from; the second adapter does not
  store it in \<open>chainTransferData\<close>, so it contributes to neither the numerator nor the
  denominator and the estimate is the same without it; and the event contributes nothing to
  the direct-involvement sum.  (Nothing is claimed for the first adapter's total network
  value and for the total teleport value of either adapter: these take every record.)
\<close>

theorem C1_unmapped_ids_where_excluded:
  assumes "stat_chain st = Some None"
    and "field_chain (sourceChain t) = None" and "field_chain (destChain t) = None"
  shows "find_chainStat c (xs @ st # ys) = find_chainStat c (xs @ ys) \<and>
         chainTransferData_loop d (xs @ st # ys) = chainTransferData_loop d (xs @ ys) \<and>
         estimate_v2 c (xs @ st # ys) teleports = estimate_v2 c (xs @ ys) teleports \<and>
         chainTeleportValue_loop c v (ts @ t # us) = chainTeleportValue_loop c v (ts @ us)"
proof -
  have "\<not> involves c t" using assms(2,3) by (simp add: involves_def)
  then have "chainTeleportValue_loop c v (ts @ t # us) = chainTeleportValue_loop c v (ts @ us)"
    by (rule chainTeleportValue_loop_skip)
  moreover have "estimate_v2 c (xs @ st # ys) teleports = estimate_v2 c (xs @ ys) teleports"
    by (simp only: estimate_v2_def chainTransferData_loop_skip[OF assms(1)])
  ultimately show ?thesis
    by (simp only: find_chainStat_skip[OF assms(1)] chainTransferData_loop_skip[OF assms(1)]
        simp_thms)
qed

text \<open>An instance: the record for chain 999 after the one for Ethereum.\<close>

theorem C1_witness:
  "stat_chain stat_unmapped_2 = Some None \<and>
   field_chain (sourceChain teleport_unmapped_1) = None \<and>
   field_chain (destChain teleport_unmapped_1) = None \<and>
   find_chainStat ''ethereum'' ([stat_ethereum_2] @ stat_unmapped_2 # [])
     = find_chainStat ''ethereum'' ([stat_ethereum_2] @ []) \<and>
   chainTransferData_loop [] ([stat_ethereum_2] @ stat_unmapped_2 # [])
     = chainTransferData_loop [] ([stat_ethereum_2] @ []) \<and>
   estimate_v2 ''ethereum'' ([stat_ethereum_2] @ stat_unmapped_2 # []) [teleport_8]
     = estimate_v2 ''ethereum'' ([stat_ethereum_2] @ []) [teleport_8] \<and>
   chainTeleportValue_loop ''ethereum'' (Fin 0) ([teleport_8] @ teleport_unmapped_1 # [])
     = chainTeleportValue_loop ''ethereum'' (Fin 0) ([teleport_8] @ [])"
proof -
  have h: "stat_chain stat_unmapped_2 = Some None"
    "field_chain (sourceChain teleport_unmapped_1) = None"
    "field_chain (destChain teleport_unmapped_1) = None"
    by (rule stat_chain_examples(2)) (simp_all add: teleport_unmapped_1_def field_chain_examples)
  from C1_unmapped_ids_where_excluded[OF h, of "''ethereum''" "[stat_ethereum_2]" "[]" "[]"
      "[teleport_8]" "Fin 0" "[teleport_8]" "[]"] h
  show ?thesis by (simp only: simp_thms)
qed

text \<open>
  C2, as stated, fails for the second adapter, which divides the total of an asset whose
  name includes \<open>USDC\<close> or \<open>USDT\<close> by \<open>10^6\<close>.  One teleport of asset \<open>USDC\<close> with the raw
  amount 1000000 contributes \<open>1000000 / 10^18 = 1e-12\<close> to the total teleport value of the
  first adapter, and 1 to that of the second.
\<close>

theorem C2_counterexample:
  "field_string (assetId teleport_usdc_1) = ''USDC'' \<and>
   parseFloat_or_0 (amount teleport_usdc_1) = Fin 1000000 \<and>
   jdiv (Fin 1000000) (Fin (10 ^ 18)) = Fin (4951760157141521 / 4951760157141521099596496896) \<and>
   totalTeleportValue_loop (Fin 0) [teleport_usdc_1]
     = Some (Fin (4951760157141521 / 4951760157141521099596496896)) \<and>
   totalTeleportValue_v2 [teleport_usdc_1] = Fin 1"
proof -
  have "field_string (assetId teleport_usdc_1) = ''USDC''"
    "parseFloat_or_0 (amount teleport_usdc_1) = Fin 1000000"
    by (simp_all add: teleport_usdc_1_def parseFloat_more_examples)
  moreover have "jdiv (Fin 1000000) (Fin (10 ^ 18))
      = Fin (4951760157141521 / 4951760157141521099596496896)"
    using normalized_more_examples(3) by (simp only: lit_1e18_def)
  ultimately show ?thesis
    using totalTeleportValue_usdc_v1 totalTeleportValue_usdc_v2 by (simp only: simp_thms)
qed

text \<open>
  C2 (amended).  In the first adapter every teleport event contributes its raw amount
  divided by \<open>10^18\<close>, whatever its asset, to the total teleport value (all events; an asset
  id that names a member of \<open>Object.prototype\<close> makes the analysis throw instead) and to the
  direct-involvement sum (the events that involve the target).  In the second adapter the
  raw amounts are added up per asset, the assets being told apart by the property key of
  \<open>ASSET_ID_MAP[assetId] || assetId\<close>, and each asset's total is divided by \<open>10^6\<close> when the
  key includes \<open>USDC\<close> or \<open>USDT\<close> and by \<open>10^18\<close> otherwise, before the assets' values are
  added in the order of \<open>Object.keys\<close>, every key once.
\<close>

theorem C2_normalisation_per_adapter:
  "totalTeleportValue_loop (Fin 0) ts =
     (if (\<exists>t\<in>set ts. field_string (assetId t) \<in> set Object_prototype_names) then None
      else Some (foldl jadd (Fin 0) (map normalized_amount ts))) \<and>
   chainTeleportValue_loop c (Fin 0) ts
     = foldl jadd (Fin 0) (map normalized_amount (filter (involves c) ts)) \<and>
   normalized_amount t = jdiv (parseFloat_or_0 (amount t)) (Fin (10 ^ 18)) \<and>
   totalTeleportValue_v2 ts =
     foldl jadd (Fin 0)
       (map (\<lambda>asset. jdiv (totalAmount_v2 (filter (\<lambda>t. property_key (asset_of (assetId t)) = asset) ts))
                           (pow10_decimals_v2 asset))
            (object_keys (assetMap_loop [] ts))) \<and>
   distinct (object_keys (assetMap_loop [] ts)) \<and>
   set (object_keys (assetMap_loop [] ts))
     = (\<lambda>t. property_key (asset_of (assetId t))) ` set ts \<and>
   pow10_decimals_v2 asset =
     (if str_includes asset ''USDC'' \<or> str_includes asset ''USDT'' then Fin (10 ^ 6)
      else Fin (10 ^ 18))"
proof -
  have "normalized_amount t = jdiv (parseFloat_or_0 (amount t)) (Fin (10 ^ 18))"
    by (simp only: normalized_amount_def lit_1e18_def)
  moreover have "pow10_decimals_v2 asset =
     (if str_includes asset ''USDC'' \<or> str_includes asset ''USDT'' then Fin (10 ^ 6)
      else Fin (10 ^ 18))"
    by (simp only: pow10_decimals_v2_def lit_1e18_def lit_1e6_def)
  moreover have "distinct (object_keys (assetMap_loop [] ts))"
    by (rule object_keys_distinct) (simp add: assetMap_loop_distinct)
  moreover have "set (object_keys (assetMap_loop [] ts))
      = (\<lambda>t. property_key (asset_of (assetId t))) ` set ts"
    by (simp add: object_keys_set assetMap_loop_keys)
  ultimately show ?thesis
    using totalTeleportValue_loop_eq[of "Fin 0" ts] chainTeleportValue_loop_foldl[of c "Fin 0" ts]
      totalTeleportValue_v2_groups[of ts]
    by (simp only: simp_thms)
qed

text \<open>
  An instance: 8 tokens of an 18-decimal asset and 1000000 raw units of \<open>USDC\<close> total
  \<open>8 + 1e-12\<close> in the first adapter and 9 in the second.
\<close>

theorem C2_witness:
  "totalTeleportValue_loop (Fin 0) [teleport_8, teleport_usdc_1]
     = Some (Fin (4503599627371059 / 562949953421312)) \<and>
   totalTeleportValue_v2 [teleport_8, teleport_usdc_1] = Fin 9"
proof -
  note T = C2_normalisation_per_adapter[of "[teleport_8, teleport_usdc_1]"]
  have np: "\<not> (\<exists>t\<in>set [teleport_8, teleport_usdc_1].
              field_string (assetId t) \<in> set Object_prototype_names)"
    by (simp add: example_defs more_example_defs Object_prototype_names_def)
  from T have "totalTeleportValue_loop (Fin 0) [teleport_8, teleport_usdc_1] =
     (if (\<exists>t\<in>set [teleport_8, teleport_usdc_1].
            field_string (assetId t) \<in> set Object_prototype_names) then None
      else Some (foldl jadd (Fin 0) (map normalized_amount [teleport_8, teleport_usdc_1])))"
    by (rule conjunct1)
  then have a: "totalTeleportValue_loop (Fin 0) [teleport_8, teleport_usdc_1]
     = Some (Fin (4503599627371059 / 562949953421312))"
    unfolding if_not_P[OF np]
    by (simp add: normalized_amount_examples rnd_eval[where e = 3] round_half_even_def)
  have keys: "object_keys (assetMap_loop [] [teleport_8, teleport_usdc_1]) = [''0x2a4161ab'', ''USDC'']"
    by (simp add: object_keys_def is_array_index_def example_defs more_example_defs is_digit_def)
  from T have "totalTeleportValue_v2 [teleport_8, teleport_usdc_1] =
     foldl jadd (Fin 0)
       (map (\<lambda>asset. jdiv (totalAmount_v2 (filter (\<lambda>t. property_key (asset_of (assetId t)) = asset)
                                                [teleport_8, teleport_usdc_1]))
                           (pow10_decimals_v2 asset))
            (object_keys (assetMap_loop [] [teleport_8, teleport_usdc_1])))"
    by blast
  then have b: "totalTeleportValue_v2 [teleport_8, teleport_usdc_1] = Fin 9"
    unfolding keys
    by (simp add: totalAmount_v2_def pow10_decimals_v2_def example_defs more_example_defs
        parseFloat_examples parseFloat_more_examples normalized_examples normalized_more_examples
        rnd_examples)
  show ?thesis by (rule conjI[OF a b])
qed

text \<open>
  C3, as stated, fails on two inputs.  With stat records for Ethereum and for the unmapped
  chain 999 (2 tokens of transfers each) and total teleport value 8, the first adapter takes
  \<open>V = 4\<close> (every record) and estimates 4 for Ethereum, the second takes \<open>V = 2\<close> (mapped
  chains only) and estimates 8: no single \<open>V\<close> gives both.  And with no stat record at
  all (\<open>V = 0\<close>) and a teleport of 1000 tokens leaving Ethereum, the first adapter does not
  delegate to the Fallback Prober: it reports the direct sum 1000.
\<close>

theorem C3_counterexample:
  "totalTeleportValue_loop (Fin 0) [teleport_8] = Some (Fin 8) \<and>
   totalTeleportValue_v2 [teleport_8] = Fin 8 \<and>
   totalNetworkValue_loop (Fin 0) [stat_ethereum_2, stat_unmapped_2] = Some (Fin 4) \<and>
   chainTransferData_loop [] [stat_ethereum_2, stat_unmapped_2] = Some [(''ethereum'', Fin 2)] \<and>
   estimate_v1 ''ethereum'' [stat_ethereum_2, stat_unmapped_2] [teleport_8] = Proportional (Fin 4) \<and>
   estimate_v2 ''ethereum'' [stat_ethereum_2, stat_unmapped_2] [teleport_8] = Proportional (Fin 8) \<and>
   totalNetworkValue_loop (Fin 0) [] = Some (Fin 0) \<and>
   estimate_v1 ''ethereum'' [] [teleport_1000] = Direct (Fin 1000)"
proof -
  have "totalNetworkValue_loop (Fin 0) [] = Some (Fin 0)" by simp
  then show ?thesis
    using totalTeleportValue_example_v1 totalTeleportValue_example_v2 totalNetworkValue_example_2
      chainTransferData_example estimate_v1_example estimate_v2_example estimate_v1_direct_example
    by (simp only: simp_thms)
qed

text \<open>
  C3 (amended).  Whenever an adapter decides for the proportional estimate, that estimate is
  \<open>(v / V) * totalTeleportValue\<close> with \<open>V > 0\<close>, where
  \<^item> in the first adapter \<open>V\<close> is the sum of \<open>totalTransfersIn / 10^18\<close> over every stat
    record, and \<open>v\<close> is that of the first record mapped to the target chain;
  \<^item> in the second adapter \<open>V\<close> is the sum over the table that keeps one value per mapped
    chain name, and \<open>v\<close> is that of the last record mapped to the target chain.
  When \<open>V\<close> is not greater than 0, no quotient by \<open>V\<close> is formed (the proportion is the
  constant 0, which a division by zero never yields), and the estimator delegates to the
  Fallback Prober: always in the second adapter, and in the first adapter unless the direct
  involvement sum exceeded 100 before.
\<close>

theorem C3_proportional_estimate_per_adapter:
  "(estimate_v1 c chainStats teleports = Proportional x \<longrightarrow>
      (\<exists>V T st. totalNetworkValue_loop (Fin 0) chainStats = Some V \<and>
                 V = foldl jadd (Fin 0) (map normalized_transfersIn chainStats) \<and>
                 totalTeleportValue_loop (Fin 0) teleports = Some T \<and>
                 find_chainStat c chainStats = Some st \<and> jgt V (Fin 0) \<and>
                 x = jmul (jdiv (normalized_transfersIn st) V) T)) \<and>
   (totalNetworkValue_loop (Fin 0) chainStats = Some V \<longrightarrow> \<not> jgt V (Fin 0) \<longrightarrow>
      \<not> jgt (chainTeleportValue_loop c (Fin 0) teleports) (Fin 100) \<longrightarrow>
        estimate_v1 c chainStats teleports = Fallback) \<and>
   (\<not> jgt V (Fin 0) \<longrightarrow> chainProportion_v1 v V = Fin 0) \<and>
   jdiv v (Fin 0) \<noteq> Fin 0 \<and>
   (estimate_v2 c chainStats teleports = Proportional x \<longrightarrow>
      (\<exists>d st. chainTransferData_loop [] chainStats = Some d \<and>
              find (\<lambda>st. stat_chain st = Some (Some c)) (rev chainStats) = Some st \<and>
              jgt (totalNetworkTransfers_v2 d) (Fin 0) \<and>
              x = jmul (jdiv (normalized_transfersIn st) (totalNetworkTransfers_v2 d))
                       (totalTeleportValue_v2 teleports))) \<and>
   (chainTransferData_loop [] chainStats = Some d \<longrightarrow>
      \<not> jgt (totalNetworkTransfers_v2 d) (Fin 0) \<longrightarrow>
        estimate_v2 c chainStats teleports = Fallback)"
proof -
  have z: "\<not> jgt V (Fin 0) \<longrightarrow> chainProportion_v1 v V = Fin 0"
    by (simp add: chainProportion_v1_def)
  have f2: "chainTransferData_loop [] chainStats = Some d \<longrightarrow>
      \<not> jgt (totalNetworkTransfers_v2 d) (Fin 0) \<longrightarrow>
        estimate_v2 c chainStats teleports = Fallback"
    by (simp add: estimate_v2_def Let_def)
  show ?thesis
    using estimate_v1_proportional[of c chainStats teleports x]
      estimate_v1_zero_volume[of chainStats V c teleports] z jdiv_by_zero_not_zero[of v]
      estimate_v2_proportional[of c chainStats teleports x] f2
    by blast
qed

text \<open>
  Instances: the proportional estimates 4 and 8 of the two adapters on the same data, and
  the fallback of both without stat records.
\<close>

theorem C3_witness:
  "estimate_v1 ''ethereum'' [stat_ethereum_2, stat_unmapped_2] [teleport_8] = Proportional (Fin 4) \<and>
   (\<exists>V T st. totalNetworkValue_loop (Fin 0) [stat_ethereum_2, stat_unmapped_2] = Some V \<and>
              V = foldl jadd (Fin 0) (map normalized_transfersIn [stat_ethereum_2, stat_unmapped_2]) \<and>
              totalTeleportValue_loop (Fin 0) [teleport_8] = Some T \<and>
              find_chainStat ''ethereum'' [stat_ethereum_2, stat_unmapped_2] = Some st \<and>
              jgt V (Fin 0) \<and> Fin 4 = jmul (jdiv (normalized_transfersIn st) V) T) \<and>
   totalNetworkValue_loop (Fin 0) [] = Some (Fin 0) \<and> \<not> jgt (Fin 0) (Fin 0) \<and>
   \<not> jgt (chainTeleportValue_loop ''ethereum'' (Fin 0) [teleport_50]) (Fin 100) \<and>
   estimate_v1 ''ethereum'' [] [teleport_50] = Fallback \<and>
   chainProportion_v1 (Fin 2) (Fin 0) = Fin 0 \<and>
   estimate_v2 ''ethereum'' [stat_ethereum_2, stat_unmapped_2] [teleport_8] = Proportional (Fin 8) \<and>
   (\<exists>d st. chainTransferData_loop [] [stat_ethereum_2, stat_unmapped_2] = Some d \<and>
            find (\<lambda>st. stat_chain st = Some (Some ''ethereum''))
              (rev [stat_ethereum_2, stat_unmapped_2]) = Some st \<and>
            jgt (totalNetworkTransfers_v2 d) (Fin 0) \<and>
            Fin 8 = jmul (jdiv (normalized_transfersIn st) (totalNetworkTransfers_v2 d))
                         (totalTeleportValue_v2 [teleport_8])) \<and>
   chainTransferData_loop [] [] = Some [] \<and> \<not> jgt (totalNetworkTransfers_v2 []) (Fin 0) \<and>
   estimate_v2 ''ethereum'' [] [teleport_50] = Fallback"
proof -
  note P = C3_proportional_estimate_per_adapter[where c = "''ethereum''"
      and chainStats = "[stat_ethereum_2, stat_unmapped_2]" and teleports = "[teleport_8]"]
  note Z = C3_proportional_estimate_per_adapter[where c = "''ethereum''"
      and chainStats = "[]" and teleports = "[teleport_50]" and V = "Fin 0" and v = "Fin 2"
      and d = "[]"]
  have h1: "totalNetworkValue_loop (Fin 0) [] = Some (Fin 0)" by simp
  have h2: "\<not> jgt (Fin 0) (Fin 0)" by simp
  have h3: "\<not> jgt (chainTeleportValue_loop ''ethereum'' (Fin 0) [teleport_50]) (Fin 100)"
    unfolding chainTeleportValue_examples by simp
  have h4: "chainTransferData_loop [] [] = Some []" by simp
  have h5: "\<not> jgt (totalNetworkTransfers_v2 []) (Fin 0)"
    by (simp add: totalNetworkTransfers_v2_def)
  from P[where x = "Fin 4"] estimate_v1_example
  have r1: "\<exists>V T st. totalNetworkValue_loop (Fin 0) [stat_ethereum_2, stat_unmapped_2] = Some V \<and>
              V = foldl jadd (Fin 0) (map normalized_transfersIn [stat_ethereum_2, stat_unmapped_2]) \<and>
              totalTeleportValue_loop (Fin 0) [teleport_8] = Some T \<and>
              find_chainStat ''ethereum'' [stat_ethereum_2, stat_unmapped_2] = Some st \<and>
              jgt V (Fin 0) \<and> Fin 4 = jmul (jdiv (normalized_transfersIn st) V) T"
    by blast
  from P[where x = "Fin 8"] estimate_v2_example
  have r2: "\<exists>d st. chainTransferData_loop [] [stat_ethereum_2, stat_unmapped_2] = Some d \<and>
            find (\<lambda>st. stat_chain st = Some (Some ''ethereum''))
              (rev [stat_ethereum_2, stat_unmapped_2]) = Some st \<and>
            jgt (totalNetworkTransfers_v2 d) (Fin 0) \<and>
            Fin 8 = jmul (jdiv (normalized_transfersIn st) (totalNetworkTransfers_v2 d))
                         (totalTeleportValue_v2 [teleport_8])"
    by blast
  from Z h1 h2 h3 have r3: "estimate_v1 ''ethereum'' [] [teleport_50] = Fallback" by blast
  from Z h2 have r4: "chainProportion_v1 (Fin 2) (Fin 0) = Fin 0" by blast
  from Z h4 h5 have r5: "estimate_v2 ''ethereum'' [] [teleport_50] = Fallback" by blast
  show ?thesis
    using estimate_v1_example r1 h1 h2 h3 r3 r4 estimate_v2_example r2 h4 h5 r5
    by (simp only: simp_thms)
qed

text \<open>
  C4, as stated, fails on the order: the additions are binary64 additions, which round,
  so the sum depends on the order in which the involved teleports are processed.  Three
  teleports of 0.1, 0.2 and 0.3 tokens (18 decimals) that all leave Ethereum add up to
  0.6000000000000001 in one order and to 0.6 in the reverse order.
\<close>

theorem C4_counterexample:
  "involves ''ethereum'' teleport_01 \<and> involves ''ethereum'' teleport_02 \<and>
   involves ''ethereum'' teleport_03 \<and>
   chainTeleportValue_loop ''ethereum'' (Fin 0) [teleport_01, teleport_02, teleport_03]
     = Fin (1351079888211149 / 2251799813685248) \<and>
   chainTeleportValue_loop ''ethereum'' (Fin 0) [teleport_03, teleport_02, teleport_01]
     = Fin (5404319552844595 / 9007199254740992) \<and>
   chainTeleportValue_loop ''ethereum'' (Fin 0) [teleport_01, teleport_02, teleport_03]
     \<noteq> chainTeleportValue_loop ''ethereum'' (Fin 0) [teleport_03, teleport_02, teleport_01]"
  by (simp add: chainTeleportValue_loop_foldl involves_examples normalized_amount_examples
      tenths_eval)

text \<open>
  C4 (amended).  For every list of teleport events and every target chain, the
  direct-involvement sum of the first adapter is the left-to-right binary64 sum, from 0,
  of \<open>amount / 10^18\<close> over exactly the events whose mapped source-chain name or mapped
  destination-chain name is the target, taken in processing order.  It therefore does not
  change when events that do not involve the target are added, removed or moved, as long as
  the involved events keep their relative order.
\<close>

theorem C4_direct_sum_in_processing_order:
  "chainTeleportValue_loop c (Fin 0) ts
     = foldl jadd (Fin 0) (map normalized_amount (filter (involves c) ts)) \<and>
   (filter (involves c) ts = filter (involves c) ts' \<longrightarrow>
      chainTeleportValue_loop c (Fin 0) ts = chainTeleportValue_loop c (Fin 0) ts')"
  by (simp add: chainTeleportValue_loop_foldl)

text \<open>
  An instance: a teleport between two unmapped chains, processed first or last, leaves the
  sum for Ethereum as it is.
\<close>

theorem C4_witness:
  "filter (involves ''ethereum'') [teleport_unmapped_1, teleport_01, teleport_02]
     = filter (involves ''ethereum'') [teleport_01, teleport_02, teleport_unmapped_1] \<and>
   chainTeleportValue_loop ''ethereum'' (Fin 0) [teleport_unmapped_1, teleport_01, teleport_02]
     = chainTeleportValue_loop ''ethereum'' (Fin 0) [teleport_01, teleport_02, teleport_unmapped_1] \<and>
   chainTeleportValue_loop ''ethereum'' (Fin 0) [teleport_unmapped_1, teleport_01, teleport_02]
     = foldl jadd (Fin 0) (map normalized_amount [teleport_01, teleport_02])"
proof -
  have f: "filter (involves ''ethereum'') [teleport_unmapped_1, teleport_01, teleport_02]
     = filter (involves ''ethereum'') [teleport_01, teleport_02, teleport_unmapped_1]"
    by (simp add: involves_examples)
  have g: "filter (involves ''ethereum'') [teleport_unmapped_1, teleport_01, teleport_02]
     = [teleport_01, teleport_02]"
    by (simp add: involves_examples)
  note T = C4_direct_sum_in_processing_order[of "''ethereum''"
      "[teleport_unmapped_1, teleport_01, teleport_02]"
      "[teleport_01, teleport_02, teleport_unmapped_1]"]
  from T f have eq: "chainTeleportValue_loop ''ethereum'' (Fin 0) [teleport_unmapped_1, teleport_01, teleport_02]
     = chainTeleportValue_loop ''ethereum'' (Fin 0) [teleport_01, teleport_02, teleport_unmapped_1]"
    by blast
  from T have "chainTeleportValue_loop ''ethereum'' (Fin 0) [teleport_unmapped_1, teleport_01, teleport_02]
     = foldl jadd (Fin 0) (map normalized_amount
         (filter (involves ''ethereum'') [teleport_unmapped_1, teleport_01, teleport_02]))"
    by (rule conjunct1)
  then have sum: "chainTeleportValue_loop ''ethereum'' (Fin 0) [teleport_unmapped_1, teleport_01, teleport_02]
     = foldl jadd (Fin 0) (map normalized_amount [teleport_01, teleport_02])"
    by (simp only: g)
  show ?thesis by (rule conjI[OF f conjI[OF eq sum]])
qed

text \<open>
  C5, as stated, fails on two inputs.  On a chain with none of the three stablecoins but
  with WETH (Soneium in the example table) the estimate 2500 is reported as the raw amount
  \<open>floor(2500 / 2500 * 1e18) = 10^18\<close>, not as \<open>floor(2500 * 100% * 1e18) = 2.5 * 10^21\<close>.
  And for the estimate \<open>2^1000\<close> the product \<open>estimate * 0.1 * 1e18\<close> overflows: the amount
  reported for DAI is \<open>Infinity\<close>, which is no integer.
\<close>

theorem C5_counterexample:
  "address_of example_ADDRESSES (chain soneium_api) ''USDC'' = None \<and>
   address_of example_ADDRESSES (chain soneium_api) ''USDT'' = None \<and>
   address_of example_ADDRESSES (chain soneium_api) ''DAI'' = None \<and>
   new_calls soneium_api (addTokensToAPI_v1 example_ADDRESSES (Fin 2500) soneium_api)
     = [Add ''0x4200000000000000000000000000000000000006'' (ToString (Fin 1000000000000000000))] \<and>
   jfloor (jmul (jmul (Fin 2500) (Fin 1)) lit_1e18) = Fin 2500000000000000000000 \<and>
   Add ''0x6b175474e89094c44da98b954eedeac495271d0f'' (ToString PInf)
     \<in> set (new_calls ethereum_api (addTokensToAPI_v1 example_ADDRESSES (Fin (2 ^ 1000)) ethereum_api))"
proof -
  have c: "chain soneium_api = ''soneium''" "chain ethereum_api = ''ethereum''"
    by (simp_all add: soneium_api_def ethereum_api_def)
  have a: "new_calls soneium_api (addTokensToAPI_v1 example_ADDRESSES (Fin 2500) soneium_api)
     = [Add ''0x4200000000000000000000000000000000000006'' (ToString (Fin 1000000000000000000))]"
    by (simp only: addTokensToAPI_v1_plan new_calls_append c reports_for_2500_weth)
  have b: "jfloor (jmul (jmul (Fin 2500) (Fin 1)) lit_1e18) = Fin 2500000000000000000000"
    by (simp add: lit_1e18_def rnd_eval[where e = 71] round_half_even_def)
  have r: "report_v1 (Fin (2 ^ 1000)) (Share ''0x6b175474e89094c44da98b954eedeac495271d0f'' lit_0_1 lit_1e18)
      = Add ''0x6b175474e89094c44da98b954eedeac495271d0f'' (ToString PInf)"
    unfolding report_v1_def dai_amount_overflows by simp
  have m: "Share ''0x6b175474e89094c44da98b954eedeac495271d0f'' lit_0_1 lit_1e18
      \<in> set (plan_v1 example_ADDRESSES ''ethereum'')"
    unfolding example_plans by simp
  have "report_v1 (Fin (2 ^ 1000)) (Share ''0x6b175474e89094c44da98b954eedeac495271d0f'' lit_0_1 lit_1e18)
      \<in> set (map (report_v1 (Fin (2 ^ 1000))) (plan_v1 example_ADDRESSES ''ethereum''))"
    using m by (simp only: set_map) (rule imageI)
  then have d: "Add ''0x6b175474e89094c44da98b954eedeac495271d0f'' (ToString PInf)
     \<in> set (new_calls ethereum_api (addTokensToAPI_v1 example_ADDRESSES (Fin (2 ^ 1000)) ethereum_api))"
    by (simp only: addTokensToAPI_v1_plan new_calls_append c r)
  have e: "address_of example_ADDRESSES (chain soneium_api) ''USDC'' = None"
    "address_of example_ADDRESSES (chain soneium_api) ''USDT'' = None"
    "address_of example_ADDRESSES (chain soneium_api) ''DAI'' = None"
    by (simp_all only: c example_addresses)
  show ?thesis
    by (rule conjI[OF e(1) conjI[OF e(2) conjI[OF e(3) conjI[OF a conjI[OF b d]]]]])
qed

text \<open>
  C5 (amended).  For every estimate from 0 up to \<open>2^900\<close>, every raw amount that either
  Token Allocator reports is a non-negative integer, the floor (never more than the value,
  and less than 1 below it) of a binary64 product: \<open>estimate * fraction * 10^decimals\<close> with
  the fractions 0.7, 0.2, 0.1 for the three stablecoins of the first adapter,
  \<open>estimate * 10^decimals\<close> for the single stablecoin of the second adapter, and
  \<open>estimate / 2500 * 10^18\<close> for the WETH fallback of the first adapter.  In particular, for
  the estimate 1000 with USDC present, the first report of the first adapter is the raw
  amount \<open>floor(1000 * 0.7 * 1e6) = 700000000\<close>.
\<close>

theorem C5_reported_amounts_are_floors:
  assumes "0 \<le> q" and "q \<le> 2 ^ 900"
  shows "(\<forall>call \<in> set (new_calls a (addTokensToAPI_v1 A (Fin q) a)).
            \<exists>al p. al \<in> set (plan_v1 A (chain a)) \<and>
              ((\<exists>token. al = Share token lit_0_7 lit_1e6 \<or> al = Share token lit_0_2 lit_1e6 \<or>
                         al = Share token lit_0_1 lit_1e18) \<or>
               (\<exists>token. al = Priced token (Fin 2500) lit_1e18)) \<and>
              raw_amount (Fin q) al = Fin p \<and>
              0 \<le> \<lfloor>p\<rfloor> \<and> of_int \<lfloor>p\<rfloor> \<le> p \<and> p < of_int \<lfloor>p\<rfloor> + 1 \<and>
              call = Add (allocation_token al) (ToString (Fin (of_int \<lfloor>p\<rfloor>)))) \<and>
         (\<forall>call \<in> set (new_calls a (addTokensToAPI_v2 A (Fin q) a)).
            \<exists>al p. al \<in> set (plan_v2 A (chain a)) \<and>
              (\<exists>token. al = Whole token lit_1e6 \<or> al = Whole token lit_1e18) \<and>
              raw_amount (Fin q) al = Fin p \<and>
              0 \<le> \<lfloor>p\<rfloor> \<and> of_int \<lfloor>p\<rfloor> \<le> p \<and> p < of_int \<lfloor>p\<rfloor> + 1 \<and>
              call = AddToken (allocation_token al) (Fin (of_int \<lfloor>p\<rfloor>))) \<and>
         (address_of A (chain a) ''USDC'' = Some usdc \<longrightarrow>
            hd (new_calls a (addTokensToAPI_v1 A (Fin 1000) a))
              = Add usdc (ToString (Fin 700000000)))"
proof (intro conjI ballI impI)
  fix call assume "call \<in> set (new_calls a (addTokensToAPI_v1 A (Fin q) a))"
  then obtain al where al: "al \<in> set (plan_v1 A (chain a))" "call = report_v1 (Fin q) al"
    by (auto simp: addTokensToAPI_v1_plan)
  from raw_amount_v1_finite[OF assms al(1)] obtain p
    where p: "raw_amount (Fin q) al = Fin p" "0 \<le> p" by blast
  from plan_v1_entries[OF al(1)]
  have shape: "(\<exists>token. al = Share token lit_0_7 lit_1e6 \<or> al = Share token lit_0_2 lit_1e6 \<or>
                         al = Share token lit_0_1 lit_1e18) \<or>
               (\<exists>token. al = Priced token (Fin 2500) lit_1e18)" by blast
  have "call = Add (allocation_token al) (ToString (Fin (of_int \<lfloor>p\<rfloor>)))"
    by (simp add: al(2) report_v1_def p(1))
  with al(1) shape p floor_facts[OF p(2)]
  show "\<exists>al p. al \<in> set (plan_v1 A (chain a)) \<and>
              ((\<exists>token. al = Share token lit_0_7 lit_1e6 \<or> al = Share token lit_0_2 lit_1e6 \<or>
                         al = Share token lit_0_1 lit_1e18) \<or>
               (\<exists>token. al = Priced token (Fin 2500) lit_1e18)) \<and>
              raw_amount (Fin q) al = Fin p \<and>
              0 \<le> \<lfloor>p\<rfloor> \<and> of_int \<lfloor>p\<rfloor> \<le> p \<and> p < of_int \<lfloor>p\<rfloor> + 1 \<and>
              call = Add (allocation_token al) (ToString (Fin (of_int \<lfloor>p\<rfloor>)))"
    by blast
next
  fix call assume c: "call \<in> set (new_calls a (addTokensToAPI_v2 A (Fin q) a))"
  then obtain al where al: "al \<in> set (plan_v2 A (chain a))" "call = report_v2 (Fin q) al"
    by (auto simp: addTokensToAPI_v2_plan split: if_splits)
  from raw_amount_v2_finite[OF assms al(1)] obtain p
    where p: "raw_amount (Fin q) al = Fin p" "0 \<le> p" by blast
  have "call = AddToken (allocation_token al) (Fin (of_int \<lfloor>p\<rfloor>))"
    by (simp add: al(2) report_v2_def p(1))
  with al(1) plan_v2_entries[OF al(1)] p floor_facts[OF p(2)]
  show "\<exists>al p. al \<in> set (plan_v2 A (chain a)) \<and>
              (\<exists>token. al = Whole token lit_1e6 \<or> al = Whole token lit_1e18) \<and>
              raw_amount (Fin q) al = Fin p \<and>
              0 \<le> \<lfloor>p\<rfloor> \<and> of_int \<lfloor>p\<rfloor> \<le> p \<and> p < of_int \<lfloor>p\<rfloor> + 1 \<and>
              call = AddToken (allocation_token al) (Fin (of_int \<lfloor>p\<rfloor>))"
    by blast
next
  assume "address_of A (chain a) ''USDC'' = Some usdc"
  then show "hd (new_calls a (addTokensToAPI_v1 A (Fin 1000) a))
              = Add usdc (ToString (Fin 700000000))"
    by (simp add: addTokensToAPI_v1_plan plan_v1_def stablecoin_plan_v1_def report_v1_def
        thousand_at_70_percent)
qed

text \<open>An instance: the estimate 1000 on Ethereum, where all three stablecoins are present.\<close>

theorem C5_witness:
  "(0::rat) \<le> 1000 \<and> (1000::rat) \<le> 2 ^ 900 \<and>
   new_calls ethereum_api (addTokensToAPI_v1 example_ADDRESSES (Fin 1000) ethereum_api) =
     [Add ''0xa0b86991c6218b36c1d19d4a2e9eb0ce3606eb48'' (ToString (Fin 700000000)),
      Add ''0xdac17f958d2ee523a2206206994597c13d831ec7'' (ToString (Fin 200000000)),
      Add ''0x6b175474e89094c44da98b954eedeac495271d0f'' (ToString (Fin 100000000000000000000))] \<and>
   (\<exists>al p. al \<in> set (plan_v1 example_ADDRESSES (chain ethereum_api)) \<and>
      raw_amount (Fin 1000) al = Fin p \<and>
      0 \<le> \<lfloor>p\<rfloor> \<and> of_int \<lfloor>p\<rfloor> \<le> p \<and> p < of_int \<lfloor>p\<rfloor> + 1 \<and>
      Add ''0xa0b86991c6218b36c1d19d4a2e9eb0ce3606eb48'' (ToString (Fin 700000000))
        = Add (allocation_token al) (ToString (Fin (of_int \<lfloor>p\<rfloor>)))) \<and>
   address_of example_ADDRESSES (chain ethereum_api) ''USDC''
     = Some ''0xa0b86991c6218b36c1d19d4a2e9eb0ce3606eb48'' \<and>
   hd (new_calls ethereum_api (addTokensToAPI_v1 example_ADDRESSES (Fin 1000) ethereum_api))
     = Add ''0xa0b86991c6218b36c1d19d4a2e9eb0ce3606eb48'' (ToString (Fin 700000000))"
proof -
  have h: "(0::rat) \<le> 1000" "(1000::rat) \<le> 2 ^ 900" by simp_all
  have c: "chain ethereum_api = ''ethereum''" by (simp add: ethereum_api_def)
  have n: "new_calls ethereum_api (addTokensToAPI_v1 example_ADDRESSES (Fin 1000) ethereum_api) =
     [Add ''0xa0b86991c6218b36c1d19d4a2e9eb0ce3606eb48'' (ToString (Fin 700000000)),
      Add ''0xdac17f958d2ee523a2206206994597c13d831ec7'' (ToString (Fin 200000000)),
      Add ''0x6b175474e89094c44da98b954eedeac495271d0f'' (ToString (Fin 100000000000000000000))]"
    by (simp only: addTokensToAPI_v1_plan new_calls_append c reports_for_1000)
  have u: "address_of example_ADDRESSES (chain ethereum_api) ''USDC''
     = Some ''0xa0b86991c6218b36c1d19d4a2e9eb0ce3606eb48''"
    by (simp only: c example_addresses)
  note T = C5_reported_amounts_are_floors[OF h, of ethereum_api example_ADDRESSES
      "''0xa0b86991c6218b36c1d19d4a2e9eb0ce3606eb48''"]
  have m: "Add ''0xa0b86991c6218b36c1d19d4a2e9eb0ce3606eb48'' (ToString (Fin 700000000))
      \<in> set (new_calls ethereum_api (addTokensToAPI_v1 example_ADDRESSES (Fin 1000) ethereum_api))"
    unfolding n by simp
  from T m have e: "\<exists>al p. al \<in> set (plan_v1 example_ADDRESSES (chain ethereum_api)) \<and>
      raw_amount (Fin 1000) al = Fin p \<and>
      0 \<le> \<lfloor>p\<rfloor> \<and> of_int \<lfloor>p\<rfloor> \<le> p \<and> p < of_int \<lfloor>p\<rfloor> + 1 \<and>
      Add ''0xa0b86991c6218b36c1d19d4a2e9eb0ce3606eb48'' (ToString (Fin 700000000))
        = Add (allocation_token al) (ToString (Fin (of_int \<lfloor>p\<rfloor>)))"
    by blast
  from T u have hd: "hd (new_calls ethereum_api (addTokensToAPI_v1 example_ADDRESSES (Fin 1000) ethereum_api))
     = Add ''0xa0b86991c6218b36c1d19d4a2e9eb0ce3606eb48'' (ToString (Fin 700000000))"
    by blast
  show ?thesis
    by (rule conjI[OF h(1) conjI[OF h(2) conjI[OF n conjI[OF e conjI[OF u hd]]]]])
qed

text \<open>
  C6.  When the indexer fetch raises an exception or reports a non-success status
  (\<open>post\<close> throws in the first adapter; \<open>fetch\<close> throws, \<open>response.ok\<close> is false or
  \<open>response.json()\<close> throws in the second), \<open>getHyperbridgeTVL\<close> returns \<open>null\<close>, the
  adapter does exactly what its Fallback Prober does for the same context, and none of the
  calls of the invocation is a direct report (\<open>api.add\<close>, \<open>api.addToken\<close>).
\<close>

theorem C6_fetch_failure_falls_back:
  "getHyperbridgeTVL_v1 PostThrows = None \<and>
   calculateTVLFromAPI_v1 A PostThrows a = fallbackContractTVL_v1 A a \<and>
   filter is_direct_report (new_calls a (calculateTVLFromAPI_v1 A PostThrows a)) = [] \<and>
   getHyperbridgeTVL_v2 FetchThrows = None \<and>
   getHyperbridgeTVL_v2 (FetchReturns False body) = None \<and>
   getHyperbridgeTVL_v2 (FetchReturns ok JsonThrows) = None \<and>
   calculateTVLFromAPI_v2 A FetchThrows a = fallbackContractTVL_v2 A a \<and>
   calculateTVLFromAPI_v2 A (FetchReturns False body) a = fallbackContractTVL_v2 A a \<and>
   calculateTVLFromAPI_v2 A (FetchReturns ok JsonThrows) a = fallbackContractTVL_v2 A a \<and>
   filter is_direct_report (new_calls a (calculateTVLFromAPI_v2 A FetchThrows a)) = [] \<and>
   filter is_direct_report (new_calls a (calculateTVLFromAPI_v2 A (FetchReturns False body) a)) = [] \<and>
   filter is_direct_report (new_calls a (calculateTVLFromAPI_v2 A (FetchReturns ok JsonThrows) a)) = []"
proof -
  have v1: "calculateTVLFromAPI_v1 A PostThrows a = fallbackContractTVL_v1 A a"
    by (simp add: calculateTVLFromAPI_v1_def)
  have v2: "calculateTVLFromAPI_v2 A FetchThrows a = fallbackContractTVL_v2 A a"
    "calculateTVLFromAPI_v2 A (FetchReturns False body) a = fallbackContractTVL_v2 A a"
    "calculateTVLFromAPI_v2 A (FetchReturns ok JsonThrows) a = fallbackContractTVL_v2 A a"
    by (simp_all add: calculateTVLFromAPI_v2_def)
  have n1: "filter is_direct_report (new_calls a (fallbackContractTVL_v1 A a)) = []"
    by (simp add: fallbackContractTVL_v1_calls)
  have n2: "filter is_direct_report (new_calls a (fallbackContractTVL_v2 A a)) = []"
    by (simp add: fallbackContractTVL_v2_calls fallback_calls_v2_not_direct)
  show ?thesis
    by (simp add: v1 v2 n1 n2)
qed

text \<open>
  C7, as stated, fails in its last part: the second adapter does not use the direct sum
  without a threshold, it has no direct-involvement strategy at all.  With a teleport of 1000
  tokens leaving Ethereum and no chain stats it falls back; with stats for Ethereum and
  Optimism and a teleport of 8 tokens leaving Ethereum it reports the proportional value 4,
  not the direct sum 8.
\<close>

theorem C7_counterexample:
  "chainTeleportValue_loop ''ethereum'' (Fin 0) [teleport_1000] = Fin 1000 \<and>
   estimate_v2 ''ethereum'' [] [teleport_1000] = Fallback \<and>
   chainTeleportValue_loop ''ethereum'' (Fin 0) [teleport_8] = Fin 8 \<and>
   estimate_v2 ''ethereum'' [stat_ethereum_2, stat_optimism_2] [teleport_8] = Proportional (Fin 4)"
  using chainTeleportValue_examples(2) estimate_v2_no_stats[of "''ethereum''" "[teleport_1000]"]
    chainTeleportValue_example estimate_v2_example_halves
  by (simp only: simp_thms)

text \<open>
  C7 (amended).  In the first adapter, whenever the direct teleport-involvement sum does
  not exceed the fixed threshold of 100 and the proportional strategy yields no usable
  value, the estimator falls through to the Fallback Prober; and whenever the sum exceeds
  100 (and both loops ran through) the sum itself is the estimate.  The second adapter has
  no direct-involvement strategy: it never decides for a direct sum, and without chain
  stats it falls back whatever the teleports are.
\<close>

theorem C7_threshold_and_fallthrough:
  "(\<not> jgt (chainTeleportValue_loop c (Fin 0) teleports) (Fin 100) \<longrightarrow>
    \<not> proportional_usable_v1 c chainStats teleports \<longrightarrow>
      estimate_v1 c chainStats teleports = Fallback) \<and>
   (jgt (chainTeleportValue_loop c (Fin 0) teleports) (Fin 100) \<longrightarrow>
    totalNetworkValue_loop (Fin 0) chainStats \<noteq> None \<longrightarrow>
    totalTeleportValue_loop (Fin 0) teleports \<noteq> None \<longrightarrow>
      estimate_v1 c chainStats teleports = Direct (chainTeleportValue_loop c (Fin 0) teleports)) \<and>
   estimate_v2 c chainStats teleports \<noteq> Direct v \<and>
   estimate_v2 c [] teleports = Fallback"
proof -
  have a: "\<not> jgt (chainTeleportValue_loop c (Fin 0) teleports) (Fin 100) \<longrightarrow>
    \<not> proportional_usable_v1 c chainStats teleports \<longrightarrow>
      estimate_v1 c chainStats teleports = Fallback"
    by (auto simp: estimate_v1_def proportional_usable_v1_def Let_def split: option.splits)
  have b: "jgt (chainTeleportValue_loop c (Fin 0) teleports) (Fin 100) \<longrightarrow>
    totalNetworkValue_loop (Fin 0) chainStats \<noteq> None \<longrightarrow>
    totalTeleportValue_loop (Fin 0) teleports \<noteq> None \<longrightarrow>
      estimate_v1 c chainStats teleports = Direct (chainTeleportValue_loop c (Fin 0) teleports)"
    by (auto simp: estimate_v1_def Let_def split: option.splits)
  show ?thesis
    using a b estimate_v2_not_direct[of c chainStats teleports v] estimate_v2_no_stats[of c teleports]
    by blast
qed

text \<open>
  Instances: an involvement sum of 50 without chain stats falls back; a sum of 1000 is
  used directly.
\<close>

theorem C7_witness:
  "chainTeleportValue_loop ''ethereum'' (Fin 0) [teleport_50] = Fin 50 \<and>
   \<not> jgt (chainTeleportValue_loop ''ethereum'' (Fin 0) [teleport_50]) (Fin 100) \<and>
   \<not> proportional_usable_v1 ''ethereum'' [] [teleport_50] \<and>
   estimate_v1 ''ethereum'' [] [teleport_50] = Fallback \<and>
   jgt (chainTeleportValue_loop ''ethereum'' (Fin 0) [teleport_1000]) (Fin 100) \<and>
   totalNetworkValue_loop (Fin 0) [] \<noteq> None \<and>
   totalTeleportValue_loop (Fin 0) [teleport_1000] \<noteq> None \<and>
   estimate_v1 ''ethereum'' [] [teleport_1000] = Direct (Fin 1000)"
proof -
  have h1: "\<not> jgt (chainTeleportValue_loop ''ethereum'' (Fin 0) [teleport_50]) (Fin 100)"
    unfolding chainTeleportValue_examples by simp
  have h2: "\<not> proportional_usable_v1 ''ethereum'' [] [teleport_50]"
    by (simp add: proportional_usable_v1_def find_chainStat_def split: option.splits)
  have h3: "jgt (chainTeleportValue_loop ''ethereum'' (Fin 0) [teleport_1000]) (Fin 100)"
    unfolding chainTeleportValue_examples by simp
  have h4: "totalNetworkValue_loop (Fin 0) [] \<noteq> None" by simp
  have h5: "totalTeleportValue_loop (Fin 0) [teleport_1000] \<noteq> None"
    by (simp add: more_example_defs Object_prototype_names_def)
  note T1 = C7_threshold_and_fallthrough[of "''ethereum''" "[teleport_50]" "[]"]
  note T2 = C7_threshold_and_fallthrough[of "''ethereum''" "[teleport_1000]" "[]"]
  from T1 h1 h2 have r1: "estimate_v1 ''ethereum'' [] [teleport_50] = Fallback" by blast
  from T2 h3 h4 h5 have "estimate_v1 ''ethereum'' [] [teleport_1000]
      = Direct (chainTeleportValue_loop ''ethereum'' (Fin 0) [teleport_1000])" by blast
  then have r2: "estimate_v1 ''ethereum'' [] [teleport_1000] = Direct (Fin 1000)"
    by (simp only: chainTeleportValue_examples)
  show ?thesis
    using chainTeleportValue_examples(1) h1 h2 r1 h3 h4 h5 r2 by (simp only: simp_thms)
qed

text \<open>
  C8.  The Token Allocator of the first adapter issues exactly the reports of its plan,
  and the shares of the estimate in that plan never add up to more than 100%: when at
  least one of USDC, USDT and DAI exists on the chain, the plan holds the shares 0.7, 0.2
  and 0.1 (the binary64 values of these literals) of those that exist, and nothing else;
  when none of the three exists, the plan is the single allocation of the whole estimate
  to WETH (if WETH exists).  A WETH allocation occurs only when none of the three
  stablecoins exists.
\<close>

theorem C8_allocation_shares_within_estimate:
  "new_calls a (addTokensToAPI_v1 A usd a) = map (report_v1 usd) (plan_v1 A (chain a)) \<and>
   total_share (plan_v1 A c) \<le> 1 \<and>
   lit_0_7 = rnd (7 / 10) \<and> lit_0_2 = rnd (2 / 10) \<and> lit_0_1 = rnd (1 / 10) \<and>
   (address_of A c ''USDC'' \<noteq> None \<or> address_of A c ''USDT'' \<noteq> None \<or>
    address_of A c ''DAI'' \<noteq> None \<longrightarrow>
      plan_v1 A c =
        (case address_of A c ''USDC'' of None \<Rightarrow> [] | Some t \<Rightarrow> [Share t lit_0_7 lit_1e6]) @
        (case address_of A c ''USDT'' of None \<Rightarrow> [] | Some t \<Rightarrow> [Share t lit_0_2 lit_1e6]) @
        (case address_of A c ''DAI'' of None \<Rightarrow> [] | Some t \<Rightarrow> [Share t lit_0_1 lit_1e18])) \<and>
   (address_of A c ''USDC'' = None \<and> address_of A c ''USDT'' = None \<and>
    address_of A c ''DAI'' = None \<longrightarrow>
      plan_v1 A c =
        (case address_of A c ''WETH'' of None \<Rightarrow> []
         | Some t \<Rightarrow> [Priced t (Fin 2500) lit_1e18])) \<and>
   ((\<exists>token price scale. Priced token price scale \<in> set (plan_v1 A c)) =
      (address_of A c ''USDC'' = None \<and> address_of A c ''USDT'' = None \<and>
       address_of A c ''DAI'' = None \<and> address_of A c ''WETH'' \<noteq> None))"
proof -
  have 1: "new_calls a (addTokensToAPI_v1 A usd a) = map (report_v1 usd) (plan_v1 A (chain a))"
    by (simp add: addTokensToAPI_v1_plan)
  have 2: "address_of A c ''USDC'' \<noteq> None \<or> address_of A c ''USDT'' \<noteq> None \<or>
    address_of A c ''DAI'' \<noteq> None \<longrightarrow>
      plan_v1 A c =
        (case address_of A c ''USDC'' of None \<Rightarrow> [] | Some t \<Rightarrow> [Share t lit_0_7 lit_1e6]) @
        (case address_of A c ''USDT'' of None \<Rightarrow> [] | Some t \<Rightarrow> [Share t lit_0_2 lit_1e6]) @
        (case address_of A c ''DAI'' of None \<Rightarrow> [] | Some t \<Rightarrow> [Share t lit_0_1 lit_1e18])"
    by (auto simp: plan_v1_def stablecoin_plan_v1_def split: option.splits)
  have 3: "address_of A c ''USDC'' = None \<and> address_of A c ''USDT'' = None \<and>
    address_of A c ''DAI'' = None \<longrightarrow>
      plan_v1 A c =
        (case address_of A c ''WETH'' of None \<Rightarrow> []
         | Some t \<Rightarrow> [Priced t (Fin 2500) lit_1e18])"
    by (auto simp: plan_v1_def stablecoin_plan_v1_def split: option.splits)
  have 4: "(\<exists>token price scale. Priced token price scale \<in> set (plan_v1 A c)) =
      (address_of A c ''USDC'' = None \<and> address_of A c ''USDT'' = None \<and>
       address_of A c ''DAI'' = None \<and> address_of A c ''WETH'' \<noteq> None)"
    by (cases "address_of A c ''USDC''"; cases "address_of A c ''USDT''";
        cases "address_of A c ''DAI''"; cases "address_of A c ''WETH''")
       (simp_all add: plan_v1_def stablecoin_plan_v1_def)
  show ?thesis
    using 1 total_share_plan_v1[of A c] 2 3 4
    by (simp only: lit_0_7_def lit_0_2_def lit_0_1_def simp_thms)
qed

text \<open>
  Instances: Ethereum with all three stablecoins (the three binary64 shares add up to
  \<open>1 - 2^-55\<close>), and Soneium with WETH only.
\<close>

theorem C8_witness:
  "address_of example_ADDRESSES ''ethereum'' ''USDC''
     = Some ''0xa0b86991c6218b36c1d19d4a2e9eb0ce3606eb48'' \<and>
   plan_v1 example_ADDRESSES ''ethereum'' =
     [Share ''0xa0b86991c6218b36c1d19d4a2e9eb0ce3606eb48'' lit_0_7 lit_1e6,
      Share ''0xdac17f958d2ee523a2206206994597c13d831ec7'' lit_0_2 lit_1e6,
      Share ''0x6b175474e89094c44da98b954eedeac495271d0f'' lit_0_1 lit_1e18] \<and>
   total_share (plan_v1 example_ADDRESSES ''ethereum'') \<le> 1 \<and>
   total_share (plan_v1 example_ADDRESSES ''ethereum'') = 1 - 1 / 2 ^ 55 \<and>
   address_of example_ADDRESSES ''soneium'' ''USDC'' = None \<and>
   address_of example_ADDRESSES ''soneium'' ''USDT'' = None \<and>
   address_of example_ADDRESSES ''soneium'' ''DAI'' = None \<and>
   plan_v1 example_ADDRESSES ''soneium'' =
     [Priced ''0x4200000000000000000000000000000000000006'' (Fin 2500) lit_1e18] \<and>
   total_share (plan_v1 example_ADDRESSES ''soneium'') = 1"
proof -
  note E = C8_allocation_shares_within_estimate[of ethereum_api example_ADDRESSES "Fin 0" "''ethereum''"]
  note S = C8_allocation_shares_within_estimate[of soneium_api example_ADDRESSES "Fin 0" "''soneium''"]
  have h1: "address_of example_ADDRESSES ''ethereum'' ''USDC''
     = Some ''0xa0b86991c6218b36c1d19d4a2e9eb0ce3606eb48''"
    by (rule example_addresses(1))
  then have "address_of example_ADDRESSES ''ethereum'' ''USDC'' \<noteq> None" by simp
  with E have "plan_v1 example_ADDRESSES ''ethereum'' =
        (case address_of example_ADDRESSES ''ethereum'' ''USDC'' of None \<Rightarrow> []
         | Some t \<Rightarrow> [Share t lit_0_7 lit_1e6]) @
        (case address_of example_ADDRESSES ''ethereum'' ''USDT'' of None \<Rightarrow> []
         | Some t \<Rightarrow> [Share t lit_0_2 lit_1e6]) @
        (case address_of example_ADDRESSES ''ethereum'' ''DAI'' of None \<Rightarrow> []
         | Some t \<Rightarrow> [Share t lit_0_1 lit_1e18])"
    by blast
  then have p1: "plan_v1 example_ADDRESSES ''ethereum'' =
     [Share ''0xa0b86991c6218b36c1d19d4a2e9eb0ce3606eb48'' lit_0_7 lit_1e6,
      Share ''0xdac17f958d2ee523a2206206994597c13d831ec7'' lit_0_2 lit_1e6,
      Share ''0x6b175474e89094c44da98b954eedeac495271d0f'' lit_0_1 lit_1e18]"
    by (simp add: example_addresses)
  from E have t1: "total_share (plan_v1 example_ADDRESSES ''ethereum'') \<le> 1" by blast
  have t2: "total_share (plan_v1 example_ADDRESSES ''ethereum'') = 1 - 1 / 2 ^ 55"
    unfolding p1 by (simp add: total_share_def lit_values)
  have h2: "address_of example_ADDRESSES ''soneium'' ''USDC'' = None"
    "address_of example_ADDRESSES ''soneium'' ''USDT'' = None"
    "address_of example_ADDRESSES ''soneium'' ''DAI'' = None"
    by (simp_all add: example_addresses)
  from S h2 have "plan_v1 example_ADDRESSES ''soneium'' =
        (case address_of example_ADDRESSES ''soneium'' ''WETH'' of None \<Rightarrow> []
         | Some t \<Rightarrow> [Priced t (Fin 2500) lit_1e18])"
    by blast
  then have p2: "plan_v1 example_ADDRESSES ''soneium'' =
     [Priced ''0x4200000000000000000000000000000000000006'' (Fin 2500) lit_1e18]"
    by (simp add: example_addresses)
  have t3: "total_share (plan_v1 example_ADDRESSES ''soneium'') = 1"
    unfolding p2 by (simp add: total_share_def)
  show ?thesis
    by (rule conjI[OF h1 conjI[OF p1 conjI[OF t1 conjI[OF t2 conjI[OF h2(1) conjI[OF h2(2)
          conjI[OF h2(3) conjI[OF p2 t3]]]]]]]])
qed

text \<open>
  C9.  In the second adapter, for every execution context and every \<open>tvlAmount <= 0\<close>,
  \<open>addTokensToAPI\<close> returns at once: the context is unchanged and no call is issued, so a
  zero or negative estimate never produces a report.
\<close>

theorem C9_nonpositive_estimate_reports_nothing:
  "jle tvlAmount (Fin 0) \<Longrightarrow>
     addTokensToAPI_v2 A tvlAmount a = a \<and> new_calls a (addTokensToAPI_v2 A tvlAmount a) = []"
  by (simp add: addTokensToAPI_v2_def)

text \<open>Instances: the estimates 0 and -5 on Ethereum.\<close>

theorem C9_witness:
  "jle (Fin 0) (Fin 0) \<and> jle (Fin (- 5)) (Fin 0) \<and>
   addTokensToAPI_v2 example_ADDRESSES (Fin 0) ethereum_api = ethereum_api \<and>
   new_calls ethereum_api (addTokensToAPI_v2 example_ADDRESSES (Fin 0) ethereum_api) = [] \<and>
   addTokensToAPI_v2 example_ADDRESSES (Fin (- 5)) ethereum_api = ethereum_api \<and>
   new_calls ethereum_api (addTokensToAPI_v2 example_ADDRESSES (Fin (- 5)) ethereum_api) = []"
  using C9_nonpositive_estimate_reports_nothing[of "Fin 0" example_ADDRESSES ethereum_api]
        C9_nonpositive_estimate_reports_nothing[of "Fin (- 5)" example_ADDRESSES ethereum_api]
  by simp

text \<open>
  C10.  The computation after the fetch is a function of the fetched result, the requested
  chain and the address table alone: two runs with the same fetch result and the same chain,
  whatever else their execution contexts hold (here: the calls recorded before), append the
  same sequence of calls, with the same token addresses and the same raw amounts, to what
  was there before, in both adapters.
\<close>

theorem C10_reports_depend_only_on_data_and_chain:
  assumes "chain a = chain b"
  shows "calls (calculateTVLFromAPI_v1 A r1 a) = calls a @ new_calls a (calculateTVLFromAPI_v1 A r1 a) \<and>
         calls (calculateTVLFromAPI_v1 A r1 b) = calls b @ new_calls b (calculateTVLFromAPI_v1 A r1 b) \<and>
         new_calls a (calculateTVLFromAPI_v1 A r1 a) = new_calls b (calculateTVLFromAPI_v1 A r1 b) \<and>
         calls (calculateTVLFromAPI_v2 A r2 a) = calls a @ new_calls a (calculateTVLFromAPI_v2 A r2 a) \<and>
         calls (calculateTVLFromAPI_v2 A r2 b) = calls b @ new_calls b (calculateTVLFromAPI_v2 A r2 b) \<and>
         new_calls a (calculateTVLFromAPI_v2 A r2 a) = new_calls b (calculateTVLFromAPI_v2 A r2 b)"
proof -
  obtain cs1 where v1: "\<And>x. chain x = chain a \<Longrightarrow>
      calculateTVLFromAPI_v1 A r1 x = x\<lparr>calls := calls x @ cs1\<rparr>"
    using calculateTVLFromAPI_v1_appends[of "chain a" A r1] by blast
  obtain cs2 where v2: "\<And>x. chain x = chain a \<Longrightarrow>
      calculateTVLFromAPI_v2 A r2 x = x\<lparr>calls := calls x @ cs2\<rparr>"
    using calculateTVLFromAPI_v2_appends[of "chain a" A r2] by blast
  from assms have b: "chain b = chain a" by simp
  show ?thesis
    by (simp add: v1[OF refl] v1[OF b] v2[OF refl] v2[OF b])
qed

text \<open>
  An instance: two contexts for Ethereum, one of which already holds a call, run on the
  same answer of the indexer.
\<close>

theorem C10_witness:
  "chain ethereum_api = chain ethereum_api_used \<and>
   calls ethereum_api \<noteq> calls ethereum_api_used \<and>
   new_calls ethereum_api
       (calculateTVLFromAPI_v1 example_ADDRESSES (PostReturns (Some example_data)) ethereum_api) =
     [Add ''0xa0b86991c6218b36c1d19d4a2e9eb0ce3606eb48'' (ToString (Fin 2800000)),
      Add ''0xdac17f958d2ee523a2206206994597c13d831ec7'' (ToString (Fin 800000)),
      Add ''0x6b175474e89094c44da98b954eedeac495271d0f'' (ToString (Fin 400000000000000000))] \<and>
   new_calls ethereum_api_used
       (calculateTVLFromAPI_v1 example_ADDRESSES (PostReturns (Some example_data)) ethereum_api_used) =
     [Add ''0xa0b86991c6218b36c1d19d4a2e9eb0ce3606eb48'' (ToString (Fin 2800000)),
      Add ''0xdac17f958d2ee523a2206206994597c13d831ec7'' (ToString (Fin 800000)),
      Add ''0x6b175474e89094c44da98b954eedeac495271d0f'' (ToString (Fin 400000000000000000))] \<and>
   new_calls ethereum_api
       (calculateTVLFromAPI_v2 example_ADDRESSES
          (FetchReturns True (JsonReturns False (Some example_data))) ethereum_api) =
     [AddToken ''0xa0b86991c6218b36c1d19d4a2e9eb0ce3606eb48'' (Fin 8000000)] \<and>
   new_calls ethereum_api_used
       (calculateTVLFromAPI_v2 example_ADDRESSES
          (FetchReturns True (JsonReturns False (Some example_data))) ethereum_api_used) =
     [AddToken ''0xa0b86991c6218b36c1d19d4a2e9eb0ce3606eb48'' (Fin 8000000)]"
proof -
  have c: "chain ethereum_api = ''ethereum''" "chain ethereum_api_used = ''ethereum''"
    by (simp_all add: ethereum_api_def ethereum_api_used_def)
  have h: "chain ethereum_api = chain ethereum_api_used" by (simp only: c)
  have d: "calls ethereum_api \<noteq> calls ethereum_api_used"
    by (simp add: ethereum_api_def ethereum_api_used_def)
  note T = C10_reports_depend_only_on_data_and_chain[OF h, of example_ADDRESSES
      "PostReturns (Some example_data)" "FetchReturns True (JsonReturns False (Some example_data))"]
  have e1: "estimate_v1 (chain ethereum_api) [stat_ethereum_2, stat_unmapped_2] [teleport_8]
      = Proportional (Fin 4)"
    by (simp only: c estimate_v1_example)
  have e2: "estimate_v2 (chain ethereum_api) [stat_ethereum_2, stat_unmapped_2] [teleport_8]
      = Proportional (Fin 8)"
    by (simp only: c estimate_v2_example)
  have r1: "calculateTVLFromAPI_v1 example_ADDRESSES (PostReturns (Some example_data)) ethereum_api
      = addTokensToAPI_v1 example_ADDRESSES (Fin 4) ethereum_api"
    by (simp add: calculateTVLFromAPI_v1_def example_data_def e1)
  have r2: "calculateTVLFromAPI_v2 example_ADDRESSES
      (FetchReturns True (JsonReturns False (Some example_data))) ethereum_api
      = addTokensToAPI_v2 example_ADDRESSES (Fin 8) ethereum_api"
    by (simp add: calculateTVLFromAPI_v2_def example_data_def e2)
  have n1: "new_calls ethereum_api
       (calculateTVLFromAPI_v1 example_ADDRESSES (PostReturns (Some example_data)) ethereum_api) =
     [Add ''0xa0b86991c6218b36c1d19d4a2e9eb0ce3606eb48'' (ToString (Fin 2800000)),
      Add ''0xdac17f958d2ee523a2206206994597c13d831ec7'' (ToString (Fin 800000)),
      Add ''0x6b175474e89094c44da98b954eedeac495271d0f'' (ToString (Fin 400000000000000000))]"
    by (simp only: r1 addTokensToAPI_v1_plan new_calls_append c reports_for_4)
  have "\<not> jle (Fin 8) (Fin 0)" by simp
  then have n2: "new_calls ethereum_api
       (calculateTVLFromAPI_v2 example_ADDRESSES
          (FetchReturns True (JsonReturns False (Some example_data))) ethereum_api) =
     [AddToken ''0xa0b86991c6218b36c1d19d4a2e9eb0ce3606eb48'' (Fin 8000000)]"
    by (simp only: r2 addTokensToAPI_v2_plan if_False new_calls_append c reports_for_8_v2)
  from T have "new_calls ethereum_api
       (calculateTVLFromAPI_v1 example_ADDRESSES (PostReturns (Some example_data)) ethereum_api)
     = new_calls ethereum_api_used
       (calculateTVLFromAPI_v1 example_ADDRESSES (PostReturns (Some example_data)) ethereum_api_used)"
    by blast
  with n1 have m1: "new_calls ethereum_api_used
       (calculateTVLFromAPI_v1 example_ADDRESSES (PostReturns (Some example_data)) ethereum_api_used) =
     [Add ''0xa0b86991c6218b36c1d19d4a2e9eb0ce3606eb48'' (ToString (Fin 2800000)),
      Add ''0xdac17f958d2ee523a2206206994597c13d831ec7'' (ToString (Fin 800000)),
      Add ''0x6b175474e89094c44da98b954eedeac495271d0f'' (ToString (Fin 400000000000000000))]"
    by (simp only:)
  from T have "new_calls ethereum_api
       (calculateTVLFromAPI_v2 example_ADDRESSES
          (FetchReturns True (JsonReturns False (Some example_data))) ethereum_api)
     = new_calls ethereum_api_used
       (calculateTVLFromAPI_v2 example_ADDRESSES
          (FetchReturns True (JsonReturns False (Some example_data))) ethereum_api_used)"
    by blast
  with n2 have m2: "new_calls ethereum_api_used
       (calculateTVLFromAPI_v2 example_ADDRESSES
          (FetchReturns True (JsonReturns False (Some example_data))) ethereum_api_used) =
     [AddToken ''0xa0b86991c6218b36c1d19d4a2e9eb0ce3606eb48'' (Fin 8000000)]"
    by (simp only:)
  show ?thesis
    by (rule conjI[OF h conjI[OF d conjI[OF n1 conjI[OF m1 conjI[OF n2 m2]]]]])
qed

end
